theory Spec2Isabelle
  imports Complex_Main "HOL-Library.Log_Nat"
begin

section \<open>Conventions of the embedding\<close>

text \<open>
  The repository is an e-commerce backend: three document models (Cart, Product, User), an
  authentication middleware and the authentication routes. The embedding follows the
  JavaScript sources function by function.

  \<^item> A JavaScript \<^verbatim>\<open>Number\<close> is a rational number, and the arithmetic of the models is
    the arithmetic of doubles: the result of \<^verbatim>\<open>+\<close>, \<^verbatim>\<open>-\<close>, \<^verbatim>\<open>*\<close> and \<^verbatim>\<open>/\<close> is
    the exact result rounded to the nearest double, a tie going to the even significand
    (\<open>fl\<close> below). Infinities, \<^verbatim>\<open>NaN\<close> and the subnormal range are left out: the
    rounding keeps 53 significant bits at every magnitude.
  \<^item> An \<^verbatim>\<open>ObjectId\<close> is the string that \<^verbatim>\<open>toString()\<close> prints; \<^verbatim>\<open>equals\<close> and the
    comparison of the printed forms are both equality of that string.
  \<^item> A value that may be \<^verbatim>\<open>undefined\<close> or \<^verbatim>\<open>null\<close> is an \<^typ>\<open>'a option\<close>; a field
    of a record whose type is not an option is present.
  \<^item> The collections of carts and of products are maps from the \<^verbatim>\<open>_id\<close> of a document
    to the document; the collection of users, which the routes search by email, is a list.
  \<^item> \<^verbatim>\<open>save()\<close> on a cart or a product first validates the document against the
    validators that its schema declares (minimal and maximal values, required strings,
    maximal lengths); a document that fails is not written and the call throws. Only then
    does the pre-save hook of the schema run, and the result is written into the
    collection; the document the caller holds afterwards is the stored one. A method
    returns the collection together with the stored document or the error it throws.
  \<^item> A string that a method assigns to a field declared with \<^verbatim>\<open>trim: true\<close> is
    trimmed by the setter of the schema.
  \<^item> The password hash, the token library and the write of a user document are inputs of
    the route handlers, which catch their failure.
  \<^item> \<^verbatim>\<open>new Date()\<close> is a parameter \<open>now\<close>.
\<close>

section \<open>Numbers\<close>

text \<open>Rounding to the nearest integer, a tie going to the even one.\<close>

definition rne :: "rat \<Rightarrow> int" where
  "rne x = (let f = \<lfloor>x\<rfloor>; d = x - of_int f
            in if d < 1 / 2 then f else if 1 / 2 < d then f + 1
               else if even f then f else f + 1)"

text \<open>The binary exponent of a positive number: \<open>2 powi e \<le> x < 2 powi (e + 1)\<close>.\<close>

definition exponent :: "rat \<Rightarrow> int" where
  "exponent x = (if 1 \<le> x then bitlen \<lfloor>x\<rfloor> - 1 else - bitlen (\<lceil>1 / x\<rceil> - 1))"

text \<open>The nearest double: the number is rounded to a multiple of the unit in its last place.\<close>

definition fl :: "rat \<Rightarrow> rat" where
  "fl x = (if x = 0 then 0
           else (let u = 2 powi (exponent \<bar>x\<bar> - 52) in of_int (rne (x / u)) * u))"

definition is_double :: "rat \<Rightarrow> bool" where
  "is_double x \<longleftrightarrow> fl x = x"

definition js_add :: "rat \<Rightarrow> rat \<Rightarrow> rat" where
  "js_add a b = fl (a + b)"

definition js_sub :: "rat \<Rightarrow> rat \<Rightarrow> rat" where
  "js_sub a b = fl (a - b)"

definition js_mul :: "rat \<Rightarrow> rat \<Rightarrow> rat" where
  "js_mul a b = fl (a * b)"

definition js_div :: "rat \<Rightarrow> rat \<Rightarrow> rat" where
  "js_div a b = fl (a / b)"

text \<open>A sum in the arithmetic of the code: from 0, left to right.\<close>

definition js_sum :: "rat list \<Rightarrow> rat" where
  "js_sum xs = foldl js_add 0 xs"


type_synonym oid = string
type_synonym date = nat

datatype js_error = Error string

text \<open>
  \<^verbatim>\<open>v || d\<close> on a string that may be missing: \<open>d\<close> when \<open>v\<close> is \<^verbatim>\<open>undefined\<close>,
  \<^verbatim>\<open>null\<close> or the empty string, \<open>v\<close> otherwise. A number is falsy when it is missing or 0.
\<close>

definition truthy_string :: "string option \<Rightarrow> bool" where
  "truthy_string v = (case v of None \<Rightarrow> False | Some s \<Rightarrow> s \<noteq> [])"

definition truthy_number :: "rat option \<Rightarrow> bool" where
  "truthy_number v = (case v of None \<Rightarrow> False | Some x \<Rightarrow> x \<noteq> 0)"

definition truthy_bool :: "bool option \<Rightarrow> bool" where
  "truthy_bool v = (case v of None \<Rightarrow> False | Some b \<Rightarrow> b)"

definition or_else :: "string option \<Rightarrow> string \<Rightarrow> string" where
  "or_else v d = (case v of None \<Rightarrow> d | Some s \<Rightarrow> if s = [] then d else s)"

text \<open>\<^verbatim>\<open>Math.round\<close>: the nearest integer, a tie going up.\<close>

definition Math_round :: "rat \<Rightarrow> int" where
  "Math_round x = \<lfloor>x + 1 / 2\<rfloor>"

text \<open>
  \<^verbatim>\<open>String.prototype.trim\<close>, which the setter of a \<^verbatim>\<open>trim: true\<close> field applies: the
  white space of ASCII is dropped at both ends.
\<close>

definition is_whitespace :: "char \<Rightarrow> bool" where
  "is_whitespace c \<longleftrightarrow> (of_char c :: nat) \<in> set [9, 10, 11, 12, 13, 32]"

definition trim :: "string \<Rightarrow> string" where
  "trim s = rev (dropWhile is_whitespace (rev (dropWhile is_whitespace s)))"

text \<open>The error of a document that fails the validators of its schema.\<close>

definition ValidationError :: js_error where
  "ValidationError = Error ''Validation failed''"

section \<open>Product model (Product.js)\<close>

text \<open>
  The record keeps the fields of the product schema that the modelled functions read or
  write, the identifier, and every field that carries a validator; tags, specifications,
  dimensions, the SEO texts and the audit references have none and take no part.
\<close>

record review =
  user :: oid
  rating :: rat
  comment :: string
  helpful :: rat

record image =
  url :: string
  alt :: "string option"
  isPrimary :: bool

record product =
  product_id :: oid
  name :: string
  description :: string
  price :: rat
  comparePrice :: "rat option"
  category :: string
  images :: "image list"
  stock :: rat
  rating :: rat
  reviewCount :: rat
  reviews :: "review list"
  isActive :: bool

type_synonym products = "oid \<rightharpoonup> product"

text \<open>
  The validators of the review schema (rating from 1 to 5, a comment of at most 500
  characters) and of the product schema (name, description and category required, name of at
  most 100 and description of at most 1000 characters, price, compare price and stock not
  negative, an URL for every image, rating from 0 to 5).
\<close>

definition review_valid :: "review \<Rightarrow> bool" where
  "review_valid rv \<longleftrightarrow> 1 \<le> review.rating rv \<and> review.rating rv \<le> 5 \<and> length (comment rv) \<le> 500"

definition product_valid :: "product \<Rightarrow> bool" where
  "product_valid p \<longleftrightarrow>
     name p \<noteq> [] \<and> length (name p) \<le> 100 \<and>
     description p \<noteq> [] \<and> length (description p) \<le> 1000 \<and>
     0 \<le> price p \<and>
     (case comparePrice p of None \<Rightarrow> True | Some cp \<Rightarrow> 0 \<le> cp) \<and>
     category p \<noteq> [] \<and>
     list_all (\<lambda>i. url i \<noteq> []) (images p) \<and>
     0 \<le> stock p \<and>
     0 \<le> rating p \<and> rating p \<le> 5 \<and>
     list_all review_valid (reviews p)"

definition product_pre_save :: "product \<Rightarrow> product" where
  "product_pre_save p =
     (if length (reviews p) > 0 then
        (let totalRating = foldl (\<lambda>sum rv. js_add sum (review.rating rv)) 0 (reviews p)
         in p\<lparr>rating :=
                js_div (of_int (Math_round
                   (js_mul (js_div totalRating (of_nat (length (reviews p)))) 10))) 10,
              reviewCount := of_nat (length (reviews p))\<rparr>)
      else p\<lparr>rating := 0, reviewCount := 0\<rparr>)"

definition product_save :: "product \<Rightarrow> products \<Rightarrow> products \<times> (js_error + product)" where
  "product_save p db =
     (if product_valid p then
        (let p' = product_pre_save p in (db(product_id p' \<mapsto> p'), Inr p'))
      else (db, Inl ValidationError))"

text \<open>
  A pushed review gets the schema default 0 for \<^verbatim>\<open>helpful\<close>, and its comment is trimmed
  by the setter of the review schema.
\<close>

definition addReview ::
  "oid \<Rightarrow> rat \<Rightarrow> string option \<Rightarrow> product \<Rightarrow> products \<Rightarrow> products \<times> (js_error + product)" where
  "addReview userId rating_arg comment_arg p db =
     (let kept = filter (\<lambda>rv. \<not> (user rv = userId)) (reviews p);
          pushed = kept @ [\<lparr>user = userId, review.rating = rating_arg,
                             comment = trim (or_else comment_arg []), helpful = 0\<rparr>]
      in product_save (p\<lparr>reviews := pushed\<rparr>) db)"

text \<open>
  A run of \<^verbatim>\<open>addReview\<close> calls by one user, each with its rating and comment, on
  the document that the call before returned; the run ends at the first call that throws.
\<close>

fun addReview_calls ::
  "oid \<Rightarrow> (rat \<times> string option) list \<Rightarrow> product \<Rightarrow> products \<Rightarrow>
   products \<times> (js_error + product)" where
  "addReview_calls userId [] p db = (db, Inr p)"
| "addReview_calls userId ((r, c) # calls) p db =
     (case addReview userId r c p db of
        (db', Inl e) \<Rightarrow> (db', Inl e)
      | (db', Inr p') \<Rightarrow> addReview_calls userId calls p' db')"

text \<open>
  A product with one review, and a rating and a count that a caller left stale; a product
  whose two reviews carry the Numbers 1.1 and 4.6; and a product whose one review carries
  the Number 1.15.
\<close>

definition example_product :: product where
  "example_product =
     \<lparr>product_id = ''p1'', name = ''Lamp'', description = ''A lamp'', price = 10,
      comparePrice = None, category = ''home'', images = [], stock = 50,
      rating = 5, reviewCount = 7,
      reviews = [\<lparr>user = ''u2'', review.rating = 4, comment = ''good'', helpful = 2\<rparr>],
      isActive = True\<rparr>"

definition fractional_product :: product where
  "fractional_product =
     example_product
       \<lparr>reviews := [\<lparr>user = ''u2'', review.rating = fl (11 / 10), comment = [], helpful = 0\<rparr>,
                    \<lparr>user = ''u3'', review.rating = fl (46 / 10), comment = [], helpful = 0\<rparr>]\<rparr>"

definition borderline_product :: product where
  "borderline_product =
     example_product
       \<lparr>reviews := [\<lparr>user = ''u2'', review.rating = fl (23 / 20), comment = [], helpful = 0\<rparr>]\<rparr>"

text \<open>
  The rating of the specification: the mean of the ratings, rounded to one decimal place
  (the nearest multiple of one tenth, a tie going up), and 0 for no review. A review whose
  rating is a whole number is what the data model of the specification has.
\<close>

definition mean_rating :: "review list \<Rightarrow> rat" where
  "mean_rating rs = sum_list (map review.rating rs) / of_nat (length rs)"

definition round_1_decimal :: "rat \<Rightarrow> rat" where
  "round_1_decimal x = of_int (round (x * 10)) / 10"

definition whole_rating :: "review \<Rightarrow> bool" where
  "whole_rating rv \<longleftrightarrow> review.rating rv = of_int \<lfloor>review.rating rv\<rfloor>"

subsection \<open>searchProducts\<close>

record filters =
  category :: "string option"
  subcategory :: "string option"
  minPrice :: "rat option"
  maxPrice :: "rat option"
  inStock :: "bool option"
  sortBy :: "string option"

text \<open>
  The query object that \<^verbatim>\<open>searchProducts\<close> builds. A key that the function does not set
  is \<open>None\<close>; \<open>q_text\<close> is \<^verbatim>\<open>$text.$search\<close>, \<open>q_price\<close> the object under \<^verbatim>\<open>price\<close>
  with its \<^verbatim>\<open>$gte\<close> and \<^verbatim>\<open>$lte\<close>, \<open>q_stock_gt\<close> is \<^verbatim>\<open>stock.$gt\<close>.
\<close>

record price_query =
  gte :: "rat option"
  lte :: "rat option"

record searchQuery =
  q_isActive :: bool
  q_text :: "string option"
  q_category :: "string option"
  q_subcategory :: "string option"
  q_price :: "price_query option"
  q_stock_gt :: "rat option"

datatype sortOptions = Sort_price int | Sort_rating int | Sort_createdAt int | Sort_textScore

definition searchProducts :: "string option \<Rightarrow> filters \<Rightarrow> searchQuery \<times> sortOptions" where
  "searchProducts query fs =
     (let sq0 = \<lparr>q_isActive = True, q_text = None, q_category = None, q_subcategory = None,
                 q_price = None, q_stock_gt = None\<rparr>;
          sq1 = (if truthy_string query then sq0\<lparr>q_text := query\<rparr> else sq0);
          sq2 = (if truthy_string (category fs) then sq1\<lparr>q_category := category fs\<rparr>
                 else sq1);
          sq3 = (if truthy_string (subcategory fs)
                 then sq2\<lparr>q_subcategory := subcategory fs\<rparr> else sq2);
          sq4 = (if truthy_number (minPrice fs) \<or> truthy_number (maxPrice fs) then
                   (let pr0 = \<lparr>gte = None, lte = None\<rparr>;
                        pr1 = (if truthy_number (minPrice fs) then pr0\<lparr>gte := minPrice fs\<rparr>
                               else pr0);
                        pr2 = (if truthy_number (maxPrice fs) then pr1\<lparr>lte := maxPrice fs\<rparr>
                               else pr1)
                    in sq3\<lparr>q_price := Some pr2\<rparr>)
                 else sq3);
          sq5 = (if truthy_bool (inStock fs) then sq4\<lparr>q_stock_gt := Some 0\<rparr> else sq4);
          sort = (if sortBy fs = Some ''price-low'' then Sort_price 1
                  else if sortBy fs = Some ''price-high'' then Sort_price (- 1)
                  else if sortBy fs = Some ''rating'' then Sort_rating (- 1)
                  else if sortBy fs = Some ''newest'' then Sort_createdAt (- 1)
                  else if truthy_string query then Sort_textScore
                  else Sort_createdAt (- 1))
      in (sq5, sort))"

text \<open>The default of the parameter: \<^verbatim>\<open>filters = {}\<close>.\<close>

definition no_filters :: filters where
  "no_filters =
     \<lparr>category = None, subcategory = None, minPrice = None, maxPrice = None,
      inStock = None, sortBy = None\<rparr>"

text \<open>
  What the specification asks of the price filter: a bound that is supplied, whatever its
  value, is the bound of the query.
\<close>

definition price_bounds_applied :: "filters \<Rightarrow> searchQuery \<Rightarrow> bool" where
  "price_bounds_applied fs sq =
     ((case q_price sq of None \<Rightarrow> None | Some pr \<Rightarrow> gte pr) = minPrice fs \<and>
      (case q_price sq of None \<Rightarrow> None | Some pr \<Rightarrow> lte pr) = maxPrice fs)"


section \<open>Cart model (Cart.js)\<close>

record cart_item =
  productId :: oid
  quantity :: rat
  price :: rat
  totalPrice :: rat

record cart =
  cart_id :: oid
  userId :: oid
  items :: "cart_item list"
  subtotal :: rat
  tax :: rat
  shipping :: rat
  discount :: rat
  total :: rat
  totalItems :: rat
  couponCode :: "string option"
  isActive :: bool
  lastModified :: date

type_synonym carts = "oid \<rightharpoonup> cart"

text \<open>
  The validators of the two schemas: a quantity of at least 1, and a price, a line total,
  a subtotal, a tax, a shipping charge, a discount, a total and an item count that are not
  negative.
\<close>

definition cart_item_valid :: "cart_item \<Rightarrow> bool" where
  "cart_item_valid item \<longleftrightarrow> 1 \<le> quantity item \<and> 0 \<le> price item \<and> 0 \<le> totalPrice item"

definition cart_valid :: "cart \<Rightarrow> bool" where
  "cart_valid c \<longleftrightarrow>
     list_all cart_item_valid (items c) \<and>
     0 \<le> subtotal c \<and> 0 \<le> tax c \<and> 0 \<le> shipping c \<and> 0 \<le> discount c \<and>
     0 \<le> total c \<and> 0 \<le> totalItems c"

text \<open>
  The body of the \<^verbatim>\<open>forEach\<close> of the pre-save hook: the loop walks the items in order,
  rewrites the line total of each and adds to the two running totals held in the cart.
\<close>

fun forEach_item :: "cart_item list \<Rightarrow> rat \<Rightarrow> rat \<Rightarrow> cart_item list \<times> rat \<times> rat" where
  "forEach_item [] st ti = ([], st, ti)"
| "forEach_item (item # rest) st ti =
     (let item' = item\<lparr>totalPrice := js_mul (price item) (quantity item)\<rparr>;
          st' = js_add st (totalPrice item');
          ti' = js_add ti (quantity item');
          (rest', st'', ti'') = forEach_item rest st' ti'
      in (item' # rest', st'', ti''))"

definition cart_pre_save :: "date \<Rightarrow> cart \<Rightarrow> cart" where
  "cart_pre_save now c =
     (let (items', subtotal', totalItems') = forEach_item (items c) 0 0;
          total' = js_sub (js_add (js_add subtotal' (tax c)) (shipping c)) (discount c);
          total'' = (if total' < 0 then 0 else total')
      in c\<lparr>items := items', subtotal := subtotal', totalItems := totalItems',
            total := total'', lastModified := now\<rparr>)"

definition cart_save :: "date \<Rightarrow> cart \<Rightarrow> carts \<Rightarrow> carts \<times> (js_error + cart)" where
  "cart_save now c db =
     (if cart_valid c then
        (let c' = cart_pre_save now c in (db(cart_id c' \<mapsto> c'), Inr c'))
      else (db, Inl ValidationError))"

text \<open>\<^verbatim>\<open>Array.prototype.findIndex\<close>: the index of the first match, \<open>-1\<close> when there is none.\<close>

fun findIndex_from :: "('a \<Rightarrow> bool) \<Rightarrow> 'a list \<Rightarrow> int \<Rightarrow> int" where
  "findIndex_from P [] i = -1"
| "findIndex_from P (x # xs) i = (if P x then i else findIndex_from P xs (i + 1))"

definition findIndex :: "('a \<Rightarrow> bool) \<Rightarrow> 'a list \<Rightarrow> int" where
  "findIndex P xs = findIndex_from P xs 0"

text \<open>\<^verbatim>\<open>xs.splice(i, 1)\<close> for an index inside the array.\<close>

definition splice1 :: "nat \<Rightarrow> 'a list \<Rightarrow> 'a list" where
  "splice1 i xs = take i xs @ drop (Suc i) xs"

text \<open>The parameter \<open>quantity\<close> of \<^verbatim>\<open>addItem\<close> defaults to 1 when it is not passed.\<close>

definition addItem ::
  "date \<Rightarrow> oid \<Rightarrow> rat option \<Rightarrow> rat \<Rightarrow> cart \<Rightarrow> carts \<Rightarrow> carts \<times> (js_error + cart)" where
  "addItem now pid quantity_arg price_arg c db =
     (let qty = (case quantity_arg of None \<Rightarrow> 1 | Some q \<Rightarrow> q);
          existingItemIndex = findIndex (\<lambda>item. productId item = pid) (items c)
      in if existingItemIndex \<ge> 0 then
           (let i = nat existingItemIndex;
                item = items c ! i;
                item' = item\<lparr>quantity := js_add (quantity item) qty, price := price_arg\<rparr>
            in cart_save now (c\<lparr>items := (items c)[i := item']\<rparr>) db)
         else
           cart_save now
             (c\<lparr>items := items c @
                  [\<lparr>productId = pid, quantity = qty, price = price_arg,
                    totalPrice = js_mul price_arg qty\<rparr>]\<rparr>) db)"

definition updateItemQuantity ::
  "date \<Rightarrow> oid \<Rightarrow> rat \<Rightarrow> cart \<Rightarrow> carts \<Rightarrow> carts \<times> (js_error + cart)" where
  "updateItemQuantity now pid qty c db =
     (let itemIndex = findIndex (\<lambda>item. productId item = pid) (items c)
      in if itemIndex \<ge> 0 then
           (let i = nat itemIndex;
                c' = (if qty \<le> 0 then c\<lparr>items := splice1 i (items c)\<rparr>
                      else c\<lparr>items := (items c)[i := (items c ! i)\<lparr>quantity := qty\<rparr>]\<rparr>)
            in cart_save now c' db)
         else (db, Inl (Error ''Item not found in cart'')))"

definition removeItem :: "date \<Rightarrow> oid \<Rightarrow> cart \<Rightarrow> carts \<Rightarrow> carts \<times> (js_error + cart)" where
  "removeItem now pid c db =
     cart_save now (c\<lparr>items := filter (\<lambda>item. productId item \<noteq> pid) (items c)\<rparr>) db"

definition clearCart :: "date \<Rightarrow> cart \<Rightarrow> carts \<Rightarrow> carts \<times> (js_error + cart)" where
  "clearCart now c db = cart_save now (c\<lparr>items := [], couponCode := None, discount := 0\<rparr>) db"

text \<open>The coupon code is a \<^verbatim>\<open>trim: true\<close> field.\<close>

definition applyCoupon ::
  "date \<Rightarrow> string \<Rightarrow> rat \<Rightarrow> cart \<Rightarrow> carts \<Rightarrow> carts \<times> (js_error + cart)" where
  "applyCoupon now code discountAmount c db =
     cart_save now (c\<lparr>couponCode := Some (trim code), discount := discountAmount\<rparr>) db"

definition removeCoupon :: "date \<Rightarrow> cart \<Rightarrow> carts \<Rightarrow> carts \<times> (js_error + cart)" where
  "removeCoupon now c db = cart_save now (c\<lparr>couponCode := None, discount := 0\<rparr>) db"

text \<open>What the hook does to one item.\<close>

definition line_total :: "cart_item \<Rightarrow> cart_item" where
  "line_total item = item\<lparr>totalPrice := js_mul (price item) (quantity item)\<rparr>"

text \<open>
  The recomputation that the specification describes, written with sums over the items of
  the cart: the line totals, the subtotal as the sum of price times quantity, the item
  count as the sum of the quantities, and the total floored at 0. The derived values that
  the cart had are not read.
\<close>

definition recomputed :: "date \<Rightarrow> cart \<Rightarrow> cart" where
  "recomputed now c =
     (let st = js_sum (map (\<lambda>item. js_mul (price item) (quantity item)) (items c))
      in c\<lparr>items := map line_total (items c),
           subtotal := st,
           totalItems := js_sum (map quantity (items c)),
           total := max 0 (js_sub (js_add (js_add st (tax c)) (shipping c)) (discount c)),
           lastModified := now\<rparr>)"

text \<open>
  The cart invariant of the specification, as a predicate on one document: the derived totals
  agree with the items and the three charges.
\<close>

definition totals_consistent :: "cart \<Rightarrow> bool" where
  "totals_consistent c \<longleftrightarrow>
     subtotal c = js_sum (map (\<lambda>item. js_mul (price item) (quantity item)) (items c)) \<and>
     totalItems c = js_sum (map quantity (items c)) \<and>
     map totalPrice (items c) = map (\<lambda>item. js_mul (price item) (quantity item)) (items c) \<and>
     total c = max 0 (js_sub (js_add (js_add (subtotal c) (tax c)) (shipping c)) (discount c))"

text \<open>
  The outcome of saving a cart \<open>c0\<close> into a collection \<open>db\<close>: either the cart passes
  validation and its recomputation is stored under its identifier and returned, or it does
  not, the call throws and the collection is as it was.
\<close>

definition save_outcome :: "date \<Rightarrow> cart \<Rightarrow> carts \<Rightarrow> carts \<times> (js_error + cart) \<Rightarrow> bool" where
  "save_outcome now c0 db r \<longleftrightarrow>
     (if cart_valid c0
      then r = (db(cart_id c0 \<mapsto> recomputed now c0), Inr (recomputed now c0))
      else r = (db, Inl ValidationError))"

text \<open>
  The cart of the scenario in the specification: one item of price 10 and quantity 3, tax 2,
  shipping 5 and a discount of 40, with derived values that a caller left stale.
\<close>

definition example_cart :: cart where
  "example_cart =
     \<lparr>cart_id = ''c1'', userId = ''u1'',
      items = [\<lparr>productId = ''p1'', quantity = 3, price = 10, totalPrice = 0\<rparr>],
      subtotal = 99, tax = 2, shipping = 5, discount = 40, total = 1, totalItems = 0,
      couponCode = Some ''SAVE40'', isActive = True, lastModified = 0\<rparr>"

section \<open>User model, authentication middleware and routes\<close>

record user =
  user_id :: oid
  name :: string
  email :: string
  password :: string
  role :: string
  googleId :: "string option"
  picture :: "string option"
  isActive :: bool
  lastLogin :: "date option"
  createdAt :: date

type_synonym users = "user list"

text \<open>
  The pre-save hook of the user schema; \<open>isNew\<close> and \<open>lastLoginModified\<close> are the two
  flags of the document that the hook reads.
\<close>

definition user_pre_save :: "date \<Rightarrow> bool \<Rightarrow> bool \<Rightarrow> user \<Rightarrow> user" where
  "user_pre_save now isNew lastLoginModified u =
     (if isNew \<or> lastLoginModified then u\<lparr>lastLogin := Some now\<rparr> else u)"

record profile =
  p_id :: oid
  p_name :: string
  p_email :: string
  p_role :: string
  p_picture :: "string option"
  p_createdAt :: date

definition getPublicProfile :: "user \<Rightarrow> profile" where
  "getPublicProfile u =
     \<lparr>p_id = user_id u, p_name = name u, p_email = email u, p_role = role u,
      p_picture = picture u, p_createdAt = createdAt u\<rparr>"

text \<open>
  The libraries and the storage layer the routes call. The hash and the comparison are
  functions of their arguments. A signature, a verification and a write can throw: they give
  \<open>Inl\<close> of the error they throw. \<open>odm_rejects db u\<close> is the verdict of the mapper on
  writing \<open>u\<close> into the collection \<open>db\<close> (schema validators, unique index, storage): the
  error it throws, or \<open>None\<close> when it accepts. \<open>new_ObjectId\<close> is the identifier that
  \<^verbatim>\<open>new User\<close> gives the document.
\<close>

record collaborators =
  bcrypt_hash :: "string \<Rightarrow> nat \<Rightarrow> string"
  bcrypt_compare :: "string \<Rightarrow> string \<Rightarrow> bool"
  jwt_sign :: "oid \<times> string \<Rightarrow> string option \<Rightarrow> string \<Rightarrow> js_error + string"
  jwt_verify :: "string \<Rightarrow> string option \<Rightarrow> js_error + oid \<times> string"
  odm_rejects :: "users \<Rightarrow> user \<Rightarrow> js_error option"
  new_ObjectId :: "users \<Rightarrow> oid"

record process_env =
  JWT_SECRET :: "string option"
  NODE_ENV :: "string option"

definition findOne_email :: "string \<Rightarrow> users \<Rightarrow> user option" where
  "findOne_email e db = find (\<lambda>u. email u = e) db"

definition findById :: "oid \<Rightarrow> users \<Rightarrow> user option" where
  "findById i db = find (\<lambda>u. user_id u = i) db"

text \<open>The write of a user document: it replaces the stored document of the same identifier,
  or is appended to the collection.\<close>

fun put_user :: "user \<Rightarrow> users \<Rightarrow> users" where
  "put_user u [] = [u]"
| "put_user u (v # vs) = (if user_id v = user_id u then u # vs else v # put_user u vs)"

definition user_save ::
  "collaborators \<Rightarrow> date \<Rightarrow> bool \<Rightarrow> bool \<Rightarrow> user \<Rightarrow> users \<Rightarrow> js_error + users \<times> user" where
  "user_save ext now isNew lastLoginModified u db =
     (case odm_rejects ext db u of
        Some e \<Rightarrow> Inl e
      | None \<Rightarrow> (let u' = user_pre_save now isNew lastLoginModified u
                 in Inr (put_user u' db, u')))"

text \<open>\<^verbatim>\<open>String.prototype.toLowerCase\<close> on the ASCII letters.\<close>

definition toLowerCase_char :: "char \<Rightarrow> char" where
  "toLowerCase_char c =
     (let n = (of_char c :: nat) in if 65 \<le> n \<and> n \<le> 90 then char_of (n + 32) else c)"

definition toLowerCase :: "string \<Rightarrow> string" where
  "toLowerCase s = map toLowerCase_char s"

text \<open>\<^verbatim>\<open>s.split('@')[0]\<close>: the part of \<open>s\<close> before the first @.\<close>

definition split_at_first :: "string \<Rightarrow> string" where
  "split_at_first s = takeWhile (\<lambda>c. c \<noteq> CHR ''@'') s"

text \<open>\<^verbatim>\<open>s.replace(pat, rep)\<close> with a string pattern: the first occurrence only.\<close>

fun replace :: "string \<Rightarrow> string \<Rightarrow> string \<Rightarrow> string" where
  "replace pat rep [] = (if pat = [] then rep else [])"
| "replace pat rep (c # cs) =
     (if take (length pat) (c # cs) = pat then rep @ drop (length pat) (c # cs)
      else c # replace pat rep cs)"

subsection \<open>The secret of the tokens\<close>

text \<open>
  The second argument of \<^verbatim>\<open>jwt.sign\<close> in \<^verbatim>\<open>generateToken\<close> (authRoutes.js) and the second
  argument of \<^verbatim>\<open>jwt.verify\<close> in the middleware (auth.js), as the JavaScript values they
  are: \<open>None\<close> is \<^verbatim>\<open>undefined\<close>.
\<close>

definition signing_secret :: "process_env \<Rightarrow> string option" where
  "signing_secret env = JWT_SECRET env"

definition verification_secret :: "process_env \<Rightarrow> string option" where
  "verification_secret env = Some (or_else (JWT_SECRET env) ''your-secret-key'')"

definition generateToken ::
  "collaborators \<Rightarrow> process_env \<Rightarrow> oid \<Rightarrow> string \<Rightarrow> js_error + string" where
  "generateToken ext env userId_arg email_arg =
     jwt_sign ext (userId_arg, email_arg) (signing_secret env) ''7d''"

subsection \<open>Responses\<close>

record response =
  status :: nat
  success :: "bool option"
  message :: string
  field :: "string option"
  error :: "string option"
  token :: "string option"
  r_user :: "profile option"
  r_role :: "string option"

definition json_message :: "nat \<Rightarrow> string \<Rightarrow> response" where
  "json_message code msg =
     \<lparr>status = code, success = None, message = msg, field = None, error = None,
      token = None, r_user = None, r_role = None\<rparr>"

definition validation_failure :: "nat \<Rightarrow> string \<Rightarrow> string \<Rightarrow> response" where
  "validation_failure code msg fld =
     (json_message code msg)\<lparr>success := Some False, field := Some fld\<rparr>"

definition server_error :: "process_env \<Rightarrow> string \<Rightarrow> js_error \<Rightarrow> response" where
  "server_error env msg e =
     (json_message 500 msg)
       \<lparr>success := Some False,
        error := Some (if NODE_ENV env = Some ''development''
                       then (case e of Error m \<Rightarrow> m) else ''Internal server error'')\<rparr>"

subsection \<open>The middleware (auth.js)\<close>

datatype auth_outcome = Rejected response | Next oid user

text \<open>\<^verbatim>\<open>select('-password')\<close> leaves the password out of the document; here it is emptied.\<close>

definition auth :: "collaborators \<Rightarrow> process_env \<Rightarrow> string option \<Rightarrow> users \<Rightarrow> auth_outcome" where
  "auth ext env authHeader db =
     (if \<not> truthy_string authHeader then Rejected (json_message 401 ''No authorization header'')
      else
        (let tok = replace ''Bearer '' [] (or_else authHeader []) in
         case jwt_verify ext tok (verification_secret env) of
           Inl e \<Rightarrow>
             Rejected ((json_message 401 ''Authentication failed'')
                         \<lparr>error := Some (case e of Error m \<Rightarrow> m)\<rparr>)
         | Inr (decoded_userId, _) \<Rightarrow>
             (case findById decoded_userId db of
                None \<Rightarrow> Rejected (json_message 401 ''User not found'')
              | Some u \<Rightarrow> Next decoded_userId (u\<lparr>password := []\<rparr>))))"

subsection \<open>POST /register and POST /login (authRoutes.js)\<close>

record register_body =
  b_name :: "string option"
  b_email :: "string option"
  b_password :: "string option"
  b_role :: "string option"

text \<open>
  The document that the handler builds once the request has passed its checks: the password
  is hashed with cost 12, the name defaults to the part of the email before the @, the role
  to \<^verbatim>\<open>'user'\<close>; \<^verbatim>\<open>isActive\<close> gets its schema default.
\<close>

definition new_User :: "collaborators \<Rightarrow> date \<Rightarrow> register_body \<Rightarrow> users \<Rightarrow> user" where
  "new_User ext now body db =
     (let email_v = or_else (b_email body) [];
          password_v = or_else (b_password body) [];
          hashedPassword = bcrypt_hash ext password_v 12
      in \<lparr>user_id = new_ObjectId ext db,
          name = or_else (b_name body) (split_at_first email_v),
          email = toLowerCase email_v,
          password = hashedPassword,
          role = or_else (b_role body) ''user'',
          googleId = None, picture = None, isActive = True,
          lastLogin = None, createdAt = now\<rparr>)"

definition register ::
  "collaborators \<Rightarrow> process_env \<Rightarrow> date \<Rightarrow> register_body \<Rightarrow> users \<Rightarrow> users \<times> response" where
  "register ext env now body db =
     (if \<not> truthy_string (b_email body) \<or> \<not> truthy_string (b_password body) then
        (db, validation_failure 400 ''Email and password are required''
               (if \<not> truthy_string (b_email body) then ''email'' else ''password''))
      else
        (let email_v = or_else (b_email body) [];
             password_v = or_else (b_password body) []
         in if length password_v < 6 then
              (db, validation_failure 400 ''Password must be at least 6 characters long''
                     ''password'')
            else
              (case findOne_email (toLowerCase email_v) db of
                 Some existingUser \<Rightarrow>
                   (db, validation_failure 400 ''User already exists with this email'' ''email'')
               | None \<Rightarrow>
                   (let u = new_User ext now body db
                    in case user_save ext now True False u db of
                         Inl e \<Rightarrow> (db, server_error env ''Server error during registration'' e)
                       | Inr (db', u') \<Rightarrow>
                           (case generateToken ext env (user_id u') (email u') of
                              Inl e \<Rightarrow>
                                (db', server_error env ''Server error during registration'' e)
                            | Inr t \<Rightarrow>
                                (db', (json_message 201 ''User created successfully'')
                                        \<lparr>success := Some True, token := Some t,
                                         r_user := Some (getPublicProfile u')\<rparr>))))))"

record login_body =
  l_email :: "string option"
  l_password :: "string option"

definition login ::
  "collaborators \<Rightarrow> process_env \<Rightarrow> date \<Rightarrow> login_body \<Rightarrow> users \<Rightarrow> users \<times> response" where
  "login ext env now body db =
     (if \<not> truthy_string (l_email body) \<or> \<not> truthy_string (l_password body) then
        (db, validation_failure 400 ''Email and password are required''
               (if \<not> truthy_string (l_email body) then ''email'' else ''password''))
      else
        (let email_v = or_else (l_email body) [];
             password_v = or_else (l_password body) []
         in case findOne_email (toLowerCase email_v) db of
              None \<Rightarrow> (db, validation_failure 400 ''Invalid email or password'' ''email'')
            | Some u \<Rightarrow>
                if \<not> isActive u then
                  (db, validation_failure 403
                         ''Account is deactivated. Please contact support.'' ''account'')
                else if \<not> bcrypt_compare ext password_v (password u) then
                  (db, validation_failure 400 ''Invalid email or password'' ''password'')
                else
                  (case user_save ext now False True (u\<lparr>lastLogin := Some now\<rparr>) db of
                     Inl e \<Rightarrow> (db, server_error env ''Server error during login'' e)
                   | Inr (db', u') \<Rightarrow>
                       (case generateToken ext env (user_id u') (email u') of
                          Inl e \<Rightarrow> (db', server_error env ''Server error during login'' e)
                        | Inr t \<Rightarrow>
                            (db', (json_message 200 ''Login successful'')
                                    \<lparr>success := Some True, r_role := Some (role u'),
                                     token := Some t,
                                     r_user := Some (getPublicProfile u')\<rparr>)))))"

subsection \<open>A concrete environment\<close>

text \<open>
  The validators that the user schema declares: name, email and password are required, and
  the role is one of \<^verbatim>\<open>'user'\<close> and \<^verbatim>\<open>'admin'\<close>.
\<close>

definition userSchema_valid :: "user \<Rightarrow> bool" where
  "userSchema_valid u \<longleftrightarrow>
     name u \<noteq> [] \<and> email u \<noteq> [] \<and> password u \<noteq> [] \<and> role u \<in> set [''user'', ''admin'']"

text \<open>
  Stand-ins for the libraries, for running the handlers on concrete requests: a hash that
  prefixes, a signature that joins the claims and the secret and throws without a secret, a
  mapper that applies the validators of the schema.
\<close>

definition example_collaborators :: collaborators where
  "example_collaborators =
     \<lparr>bcrypt_hash = (\<lambda>pw rounds. ''$2b$'' @ pw),
      bcrypt_compare = (\<lambda>pw h. h = ''$2b$'' @ pw),
      jwt_sign = (\<lambda>claims secret expiresIn.
        case secret of
          None \<Rightarrow> Inl (Error ''secretOrPrivateKey must have a value'')
        | Some k \<Rightarrow> Inr (fst claims @ ''.'' @ snd claims @ ''.'' @ k)),
      jwt_verify = (\<lambda>tok secret. Inl (Error ''jwt malformed'')),
      odm_rejects = (\<lambda>db u. if userSchema_valid u then None
                             else Some (Error ''User validation failed'')),
      new_ObjectId = (\<lambda>db. replicate (Suc (length db)) CHR ''a'')\<rparr>"

definition example_env :: process_env where
  "example_env = \<lparr>JWT_SECRET = Some ''s3cret'', NODE_ENV = Some ''production''\<rparr>"

definition unset_env :: process_env where
  "unset_env = \<lparr>JWT_SECRET = None, NODE_ENV = None\<rparr>"

text \<open>A collection with one user, Ann, whose password is \<^verbatim>\<open>secret1\<close>.\<close>

definition ann :: user where
  "ann = \<lparr>user_id = ''a'', name = ''Ann'', email = ''ann@x.com'', password = ''$2b$secret1'',
          role = ''user'', googleId = None, picture = None, isActive = True,
          lastLogin = None, createdAt = 0\<rparr>"

section \<open>Properties of the rounding\<close>

lemma rne_close: "\<bar>of_int (rne x) - x\<bar> \<le> 1 / 2"
proof -
  have "of_int \<lfloor>x\<rfloor> \<le> x" "x < of_int \<lfloor>x\<rfloor> + 1" by linarith+
  then show ?thesis by (auto simp: rne_def Let_def)
qed

lemma rne_of_int [simp]: "rne (of_int k) = k"
  by (simp add: rne_def)

lemma rne_ge: "of_int a \<le> x \<Longrightarrow> a \<le> rne x"
proof -
  assume "of_int a \<le> x"
  then have "a \<le> \<lfloor>x\<rfloor>" by (simp add: le_floor_iff)
  then show ?thesis by (auto simp: rne_def Let_def)
qed

lemma rne_le: "x \<le> of_int b \<Longrightarrow> rne x \<le> b"
proof -
  assume le: "x \<le> of_int b"
  show ?thesis
  proof (cases "x = of_int b")
    case True
    then show ?thesis by simp
  next
    case False
    with le have "x < of_int b" by simp
    then have "\<lfloor>x\<rfloor> < b" by (simp add: floor_less_iff)
    then show ?thesis by (auto simp: rne_def Let_def)
  qed
qed

lemma exponent_bounds:
  assumes "0 < x"
  shows "2 powi exponent x \<le> x" and "x < 2 powi (exponent x + 1)"
proof -
  have "2 powi exponent x \<le> x \<and> x < 2 powi (exponent x + 1)"
  proof (cases "1 \<le> x")
    case True
    define m where "m = \<lfloor>x\<rfloor>"
    have m: "0 < m" "of_int m \<le> x" "x < of_int m + 1"
      using True by (auto simp: m_def) linarith+
    from bitlen_bounds[OF m(1)] have b: "2 ^ nat (bitlen m - 1) \<le> m" "m < 2 ^ nat (bitlen m)"
      by auto
    have b1: "1 \<le> bitlen m" using m(1) by (auto simp: bitlen_alt_def)
    have e: "exponent x = bitlen m - 1" using True by (simp add: exponent_def m_def)
    have "(2::rat) powi (bitlen m - 1) = 2 ^ nat (bitlen m - 1)"
      using b1 by (simp add: power_int_def)
    also have "\<dots> = of_int (2 ^ nat (bitlen m - 1))" by simp
    also have "\<dots> \<le> of_int m" using b(1) by (simp only: of_int_le_iff)
    finally have lo: "(2::rat) powi (bitlen m - 1) \<le> x" using m(2) by simp
    have "m + 1 \<le> 2 ^ nat (bitlen m)" using b(2) by simp
    then have "(of_int (m + 1) :: rat) \<le> of_int (2 ^ nat (bitlen m))"
      by (simp only: of_int_le_iff)
    then have "x < 2 ^ nat (bitlen m)" using m(3) by simp
    also have "(2::rat) ^ nat (bitlen m) = 2 powi (bitlen m - 1 + 1)"
      using b1 by (simp add: power_int_def)
    finally show ?thesis using lo e by simp
  next
    case False
    with assms have x1: "x < 1" by simp
    define y where "y = 1 / x"
    have y1: "1 < y" using assms x1 by (simp add: y_def)
    define m where "m = \<lceil>y\<rceil> - 1"
    have m: "0 < m" "of_int m < y" "y \<le> of_int m + 1"
      using y1 by (auto simp: m_def) linarith+
    from bitlen_bounds[OF m(1)] have b: "2 ^ nat (bitlen m - 1) \<le> m" "m < 2 ^ nat (bitlen m)"
      by auto
    have b1: "1 \<le> bitlen m" using m(1) by (auto simp: bitlen_alt_def)
    have e: "exponent x = - bitlen m" using False by (simp add: exponent_def m_def y_def)
    have "m + 1 \<le> 2 ^ nat (bitlen m)" using b(2) by simp
    then have "(of_int (m + 1) :: rat) \<le> of_int (2 ^ nat (bitlen m))"
      by (simp only: of_int_le_iff)
    then have yu: "y \<le> 2 ^ nat (bitlen m)" using m(3) by simp
    have "(of_int (2 ^ nat (bitlen m - 1)) :: rat) \<le> of_int m"
      using b(1) by (simp only: of_int_le_iff)
    then have "(2::rat) ^ nat (bitlen m - 1) \<le> of_int m" by simp
    then have yl: "2 ^ nat (bitlen m - 1) < y" using m(2) by (rule order.strict_trans1)
    have xy: "x = 1 / y" using assms by (simp add: y_def)
    have p1: "(2::rat) powi (- bitlen m) = 1 / 2 ^ nat (bitlen m)"
      using b1 by (simp add: power_int_def field_simps)
    have p2: "(2::rat) powi (- bitlen m + 1) = 1 / 2 ^ nat (bitlen m - 1)"
      using b1 by (simp add: power_int_def field_simps nat_diff_distrib)
    have lo: "1 / 2 ^ nat (bitlen m) \<le> x"
      unfolding xy using yu y1 by (simp add: field_simps)
    have hi: "x < 1 / 2 ^ nat (bitlen m - 1)"
      unfolding xy using yl y1 by (simp add: field_simps)
    show ?thesis using lo hi e p1 p2 by simp
  qed
  then show "2 powi exponent x \<le> x" and "x < 2 powi (exponent x + 1)" by simp_all
qed

lemma two_powi_lessD:
  assumes "(2::rat) powi a < 2 powi b"
  shows "a < b"
proof (rule ccontr)
  assume "\<not> a < b"
  then have "b \<le> a" by simp
  then have "(2::rat) powi b \<le> 2 powi a" by (intro power_int_increasing) simp_all
  with assms show False by simp
qed

lemma exponent_unique:
  assumes "2 powi a \<le> x" and "x < 2 powi (a + 1)"
  shows "exponent x = a"
proof -
  have "(0::rat) < 2 powi a" by simp
  then have pos: "0 < x" using assms(1) by (rule less_le_trans)
  note b = exponent_bounds[OF pos]
  have "(2::rat) powi a < 2 powi (exponent x + 1)" using assms(1) b(2) by (rule le_less_trans)
  then have 1: "a < exponent x + 1" by (rule two_powi_lessD)
  have "(2::rat) powi exponent x < 2 powi (a + 1)" using b(1) assms(2) by (rule le_less_trans)
  then have 2: "exponent x < a + 1" by (rule two_powi_lessD)
  from 1 2 show ?thesis by simp
qed

lemma fl_0 [simp]: "fl 0 = 0"
  by (simp add: fl_def)

lemma fl_pos_eq:
  assumes "0 < x"
  shows "fl x = of_int (rne (x / 2 powi (exponent x - 52))) * 2 powi (exponent x - 52)"
  using assms by (simp add: fl_def Let_def)

lemma scaled_bounds:
  assumes "0 < x"
  shows "2 ^ 52 \<le> x / 2 powi (exponent x - 52)" and "x / 2 powi (exponent x - 52) < 2 ^ 53"
proof -
  note b = exponent_bounds[OF assms]
  have u: "(0::rat) < 2 powi (exponent x - 52)" by simp
  have e1: "(2::rat) powi exponent x = 2 ^ 52 * 2 powi (exponent x - 52)"
    by (simp add: power_int_diff)
  have e2: "(2::rat) powi (exponent x + 1) = 2 ^ 53 * 2 powi (exponent x - 52)"
    by (simp add: power_int_diff power_int_add)
  show "2 ^ 52 \<le> x / 2 powi (exponent x - 52)"
    using b(1) u unfolding e1 by (simp add: pos_le_divide_eq)
  show "x / 2 powi (exponent x - 52) < 2 ^ 53"
    using b(2) u unfolding e2 by (simp add: pos_divide_less_eq)
qed

text \<open>The rounding moves a positive number by at most one part in \<open>2 ^ 53\<close>.\<close>

lemma fl_error:
  assumes "0 < x"
  shows "\<bar>fl x - x\<bar> \<le> x / 2 ^ 53"
proof -
  define u :: rat where "u = 2 powi (exponent x - 52)"
  have u: "0 < u" by (simp add: u_def)
  have "fl x - x = (of_int (rne (x / u)) - x / u) * u"
    using u by (simp add: fl_pos_eq[OF assms] u_def[symmetric] algebra_simps)
  then have "\<bar>fl x - x\<bar> = \<bar>of_int (rne (x / u)) - x / u\<bar> * u"
    using u by (simp add: abs_mult)
  also have "\<dots> \<le> (1 / 2) * u"
    using rne_close[of "x / u"] u by (intro mult_right_mono) simp_all
  also have "\<dots> \<le> x / 2 ^ 53"
  proof -
    have "2 ^ 52 * u \<le> x"
      using scaled_bounds(1)[OF assms] u by (simp add: u_def[symmetric] pos_le_divide_eq)
    then show ?thesis by simp
  qed
  finally show ?thesis .
qed

text \<open>The whole numbers below \<open>2 ^ 53\<close> are doubles.\<close>

lemma fl_of_int:
  assumes "0 \<le> k" and "k < 2 ^ 53"
  shows "fl (of_int k) = of_int k"
proof (cases "k = 0")
  case True
  then show ?thesis by simp
next
  case False
  with assms have pos: "(0::rat) < of_int k" by simp
  define e where "e = exponent (of_int k)"
  note b = exponent_bounds[OF pos, folded e_def]
  have "(of_int k :: rat) < of_int (2 ^ 53)" using assms(2) by (simp only: of_int_less_iff)
  then have "(of_int k :: rat) < 2 powi 53" by simp
  with b(1) have "(2::rat) powi e < 2 powi 53" by (rule le_less_trans)
  then have e53: "e < 53" by (rule two_powi_lessD)
  define j where "j = nat (52 - e)"
  have ue: "(2::rat) powi (e - 52) = 1 / 2 ^ j"
    using e53 by (simp add: j_def power_int_def field_simps)
  have "of_int k / (2::rat) powi (e - 52) = of_int (k * 2 ^ j)"
    by (simp add: ue)
  then have "rne (of_int k / 2 powi (e - 52)) = k * 2 ^ j"
    by (simp only: rne_of_int)
  then show ?thesis
    by (simp add: fl_pos_eq[OF pos] e_def[symmetric] ue)
qed

lemma fl_numeral [simp]: "(numeral w :: int) < 2 ^ 53 \<Longrightarrow> fl (numeral w) = numeral w"
  using fl_of_int[of "numeral w"] by simp

lemma fl_1 [simp]: "fl 1 = 1"
  using fl_of_int[of 1] by simp

lemma fl_pos: "0 < x \<Longrightarrow> 0 < fl x"
proof -
  assume pos: "0 < x"
  have "(2::int) ^ 52 \<le> rne (x / 2 powi (exponent x - 52))"
    using scaled_bounds(1)[OF pos] by (intro rne_ge) simp
  then have "0 < rne (x / 2 powi (exponent x - 52))" by simp
  then show ?thesis by (simp add: fl_pos_eq[OF pos])
qed

lemma fl_nonneg: "0 \<le> x \<Longrightarrow> 0 \<le> fl x"
  using fl_pos[of x] by (cases "x = 0") simp_all

lemma fl_idem_pos:
  assumes "0 < x"
  shows "fl (fl x) = fl x"
proof -
  define e where "e = exponent x"
  define u :: rat where "u = 2 powi (e - 52)"
  define k where "k = rne (x / u)"
  have u: "0 < u" by (simp add: u_def)
  have flx: "fl x = of_int k * u"
    by (simp add: fl_pos_eq[OF assms] k_def u_def e_def)
  have klo: "2 ^ 52 \<le> k"
    unfolding k_def u_def e_def using scaled_bounds(1)[OF assms] by (intro rne_ge) simp
  have khi: "k \<le> 2 ^ 53"
    unfolding k_def u_def e_def using scaled_bounds(2)[OF assms] by (intro rne_le) simp
  have pe: "(2::rat) powi e = 2 ^ 52 * u" by (simp add: u_def power_int_diff)
  have pe1: "(2::rat) powi (e + 1) = 2 ^ 53 * u" by (simp add: u_def power_int_diff power_int_add)
  have pe2: "(2::rat) powi (e + 1 + 1) = 2 ^ 54 * u"
    by (simp add: u_def power_int_diff power_int_add)
  have kpos: "(0::rat) < of_int k * u" using klo u by simp
  show ?thesis
  proof (cases "k = 2 ^ 53")
    case True
    have lo': "(2::rat) powi (e + 1) \<le> of_int k * u"
      unfolding pe1 using True by simp
    have hi': "of_int k * u < (2::rat) powi (e + 1 + 1)"
      unfolding pe2 using True u by simp
    have ex: "exponent (of_int k * u) = e + 1"
      using lo' hi' by (rule exponent_unique)
    have u2: "(2::rat) powi (e + 1 - 52) = 2 * u" by (simp add: u_def power_int_diff power_int_add)
    have "of_int k * u / (2 * u) = (of_int (2 ^ 52) :: rat)" using u True by simp
    then have r: "rne (of_int k * u / (2 * u)) = 2 ^ 52" by (simp only: rne_of_int)
    have "fl (of_int k * u) = of_int (rne (of_int k * u / (2 * u))) * (2 * u)"
      using fl_pos_eq[OF kpos] unfolding ex u2 .
    also have "\<dots> = of_int (2 ^ 52) * (2 * u)" by (simp only: r)
    also have "\<dots> = of_int k * u" using True by simp
    finally show ?thesis unfolding flx .
  next
    case False
    with khi have klt: "k < 2 ^ 53" by simp
    have "(of_int (2 ^ 52) :: rat) \<le> of_int k" using klo by (simp only: of_int_le_iff)
    then have lo: "(2::rat) ^ 52 * u \<le> of_int k * u" using u by simp
    have "(of_int k :: rat) < of_int (2 ^ 53)" using klt by (simp only: of_int_less_iff)
    then have hi: "of_int k * u < (2::rat) ^ 53 * u" using u by simp
    have ex: "exponent (of_int k * u) = e"
      using lo hi unfolding pe[symmetric] pe1[symmetric] by (rule exponent_unique)
    have "of_int k * u / u = (of_int k :: rat)" using u by simp
    then have r: "rne (of_int k * u / u) = k" by (simp only: rne_of_int)
    have "fl (of_int k * u) = of_int (rne (of_int k * u / u)) * u"
      using fl_pos_eq[OF kpos] unfolding ex u_def[symmetric] .
    then show ?thesis unfolding flx r .
  qed
qed

text \<open>A result of the arithmetic is a double.\<close>

lemma fl_idem: "0 \<le> x \<Longrightarrow> fl (fl x) = fl x"
  by (cases "x = 0") (simp_all add: fl_idem_pos)

subsection \<open>The rounding of a mean of whole ratings\<close>

text \<open>
  The values \<open>j + 1 / 2\<close> that ten times a mean of ratings from 1 to 5 can take: the
  arithmetic of the code reaches each of them exactly.
\<close>

lemma tie_table:
  "\<forall>K \<in> set [11..50]. fl (fl (of_int (2 * K - 1) / 20) * 10) = of_int (2 * K - 1) / 2"
  by code_simp

text \<open>
  For a sum \<open>S\<close> of \<open>n\<close> whole ratings from 1 to 5, \<^verbatim>\<open>Math.round((S / n) * 10)\<close> in
  doubles is the exact mean times ten, rounded to the nearest integer with a tie going up.
\<close>

lemma rating_round_exact:
  fixes S n :: int
  assumes n0: "0 < n" and n32: "n < 2 ^ 32" and lo: "n \<le> S" and hi: "S \<le> 5 * n"
  shows "Math_round (fl (fl (of_int S / of_int n) * 10)) =
         \<lfloor>10 * (of_int S / of_int n :: rat) + 1 / 2\<rfloor>"
proof -
  define x :: rat where "x = of_int S / of_int n"
  define m where "m = fl x"
  define t where "t = fl (m * 10)"
  define A where "A = 20 * S + n"
  define D where "D = 2 * n"
  define K where "K = A div D"
  define r where "r = A mod D"
  have nr: "(0::rat) < of_int n" using n0 by simp
  have x1: "1 \<le> x" unfolding x_def using lo nr by (simp add: pos_le_divide_eq)
  have x5: "x \<le> 5" unfolding x_def using hi nr
    by (simp add: pos_divide_le_eq)
  have xpos: "0 < x" using x1 by simp
  have em: "\<bar>m - x\<bar> \<le> 5 / 2 ^ 53"
  proof -
    have "\<bar>m - x\<bar> \<le> x / 2 ^ 53" unfolding m_def by (rule fl_error[OF xpos])
    also have "\<dots> \<le> 5 / 2 ^ 53" using x5 by (simp add: divide_right_mono)
    finally show ?thesis .
  qed
  then have mlo: "x - 5 / 2 ^ 53 \<le> m" and mhi: "m \<le> x + 5 / 2 ^ 53"
    by linarith+
  have mpos: "0 < m * 10" using mlo x1 by simp
  have m51: "m * 10 \<le> 51" using mhi x5 by simp
  have et: "\<bar>t - m * 10\<bar> \<le> 51 / 2 ^ 53"
  proof -
    have "\<bar>t - m * 10\<bar> \<le> m * 10 / 2 ^ 53" unfolding t_def by (rule fl_error[OF mpos])
    also have "\<dots> \<le> 51 / 2 ^ 53" using m51 by (simp add: divide_right_mono)
    finally show ?thesis .
  qed
  then have tlo: "m * 10 - 51 / 2 ^ 53 \<le> t" and thi: "t \<le> m * 10 + 51 / 2 ^ 53"
    by linarith+
  have tv_lo: "10 * x - 101 / 2 ^ 53 \<le> t" using tlo mlo by simp
  have tv_hi: "t \<le> 10 * x + 101 / 2 ^ 53" using thi mhi by simp
  have Dpos: "0 < D" using n0 by (simp add: D_def)
  have Dr: "(0::rat) < of_int D" using Dpos by simp
  have vhalf: "10 * x + 1 / 2 = of_int A / of_int D"
    using nr by (simp add: x_def A_def D_def field_simps)
  have AKr: "A = K * D + r" by (simp add: K_def r_def)
  have r0: "0 \<le> r" and rD: "r < D" using Dpos by (simp_all add: r_def)
  have split: "of_int A / of_int D = (of_int K :: rat) + of_int r / of_int D"
    using Dr by (simp add: AKr field_simps)
  have floorK: "\<lfloor>10 * x + 1 / 2\<rfloor> = K"
    unfolding vhalf K_def by (rule floor_divide_of_int_eq)
  have "\<lfloor>t + 1 / 2\<rfloor> = K"
  proof (cases "r = 0")
    case True
    then have "20 * S + n = K * (2 * n)" using AKr by (simp add: A_def D_def)
    then have eq: "20 * S = n * (2 * K - 1)" by (simp add: algebra_simps)
    have "20 * n \<le> n * (2 * K - 1)" using lo eq by simp
    then have "20 \<le> 2 * K - 1" using n0 by simp
    then have K11: "11 \<le> K" by simp
    have "n * (2 * K - 1) \<le> 100 * n" using hi eq by simp
    then have "n * (2 * K - 1) \<le> n * 100" by (simp add: mult.commute)
    then have "2 * K - 1 \<le> 100" using n0 by (simp only: mult_le_cancel_left_pos)
    then have K50: "K \<le> 50" by simp
    have "(of_int (20 * S) :: rat) = of_int (n * (2 * K - 1))" using eq by simp
    then have "x = of_int (2 * K - 1) / 20"
      using nr by (simp add: x_def field_simps)
    moreover have "K \<in> set [11..50]" unfolding set_upto using K11 K50 by simp
    ultimately have "t = of_int (2 * K - 1) / 2"
      using tie_table unfolding t_def m_def by blast
    then have "t + 1 / 2 = of_int K" by (simp add: field_simps)
    then show ?thesis by simp
  next
    case False
    with r0 have r1: "1 \<le> r" by simp
    from rD have rD1: "r \<le> D - 1" by simp
    have D33: "D < 2 ^ 33" using n32 by (simp add: D_def)
    have "(of_int D :: rat) < of_int (2 ^ 33)" using D33 by (simp only: of_int_less_iff)
    then have Dlt: "(of_int D :: rat) < 2 ^ 33" by simp
    have small: "101 / 2 ^ 53 < 1 / (of_int D :: rat)"
    proof -
      have "(101 / 2 ^ 53 :: rat) < 1 / 2 ^ 33" by simp
      also have "\<dots> < 1 / of_int D" using Dlt Dr by (simp add: frac_less2)
      finally show ?thesis .
    qed
    have "(of_int 1 :: rat) \<le> of_int r" using r1 by (simp only: of_int_le_iff)
    then have fr_lo: "1 / of_int D \<le> (of_int r :: rat) / of_int D"
      using Dr by (simp add: divide_right_mono)
    have "(of_int r :: rat) \<le> of_int (D - 1)" using rD1 by (simp only: of_int_le_iff)
    then have "(of_int r :: rat) / of_int D \<le> of_int (D - 1) / of_int D"
      using Dr by (simp add: divide_right_mono)
    also have "\<dots> = 1 - 1 / of_int D" using Dr by (simp add: field_simps)
    finally have fr_hi: "(of_int r :: rat) / of_int D \<le> 1 - 1 / of_int D" .
    have v: "10 * x + 1 / 2 = of_int K + of_int r / of_int D"
      using vhalf split by simp
    have "of_int K \<le> t + 1 / 2" using tv_lo v fr_lo small by linarith
    moreover have "t + 1 / 2 < of_int K + 1" using tv_hi v fr_hi small by linarith
    ultimately show ?thesis by (simp add: floor_eq_iff)
  qed
  then show ?thesis
    unfolding Math_round_def floorK[symmetric] t_def m_def x_def by simp
qed

text \<open>Adding whole ratings from 1 to 5 in doubles is exact.\<close>

lemma whole_sum_exact:
  assumes "\<forall>k \<in> set ks. 1 \<le> k \<and> k \<le> 5" and "0 \<le> a" and "a + 5 * int (length ks) < 2 ^ 53"
  shows "foldl js_add (of_int a) (map of_int ks) = of_int (a + sum_list ks)"
  using assms
proof (induction ks arbitrary: a)
  case Nil
  then show ?case by simp
next
  case (Cons k ks)
  have k: "1 \<le> k" "k \<le> 5" using Cons.prems(1) by simp_all
  have step: "js_add (of_int a) (of_int k) = of_int (a + k)"
    using fl_of_int[of "a + k"] k Cons.prems(2,3) by (simp add: js_add_def)
  have "foldl js_add (of_int (a + k)) (map of_int ks) = of_int (a + k + sum_list ks)"
    using Cons.prems k by (intro Cons.IH) simp_all
  then show ?case by (simp add: step add.assoc)
qed

section \<open>Properties of the cart\<close>

lemma forEach_item_spec:
  "forEach_item xs st ti =
     (map line_total xs,
      foldl js_add st (map (\<lambda>item. js_mul (price item) (quantity item)) xs),
      foldl js_add ti (map quantity xs))"
  by (induction xs arbitrary: st ti) (simp_all add: Let_def line_total_def)

text \<open>The loop of the hook computes the sums of the specification.\<close>

lemma cart_pre_save_recomputed: "cart_pre_save now c = recomputed now c"
  by (simp add: cart_pre_save_def recomputed_def forEach_item_spec js_sum_def Let_def max_def)

lemma recomputed_frame:
  "cart_id (recomputed now c) = cart_id c"
  "items (recomputed now c) = map line_total (items c)"
  "tax (recomputed now c) = tax c"
  "shipping (recomputed now c) = shipping c"
  "discount (recomputed now c) = discount c"
  "couponCode (recomputed now c) = couponCode c"
  by (simp_all add: recomputed_def Let_def)

lemma recomputed_consistent: "totals_consistent (recomputed now c)"
  by (simp add: totals_consistent_def recomputed_def Let_def o_def line_total_def)

text \<open>The recomputation never reads the four derived values.\<close>

lemma recomputed_overwrites:
  "recomputed now
     (c\<lparr>items := map (\<lambda>item. item\<lparr>totalPrice := g item\<rparr>) (items c),
        subtotal := s, totalItems := n, total := t\<rparr>) = recomputed now c"
  by (simp add: recomputed_def Let_def o_def line_total_def)

lemma cart_save_outcome: "save_outcome now c db (cart_save now c db)"
  by (simp add: save_outcome_def cart_save_def Let_def cart_pre_save_recomputed recomputed_frame)

lemma cart_save_valid:
  "cart_valid c \<Longrightarrow>
   cart_save now c db = (db(cart_id c \<mapsto> recomputed now c), Inr (recomputed now c))"
  using cart_save_outcome[of now c db] by (simp add: save_outcome_def)

lemma cart_save_invalid: "\<not> cart_valid c \<Longrightarrow> cart_save now c db = (db, Inl ValidationError)"
  by (simp add: cart_save_def)

lemma cart_save_Inr:
  assumes "cart_save now c db = (db', Inr c')"
  shows "cart_valid c" and "c' = recomputed now c" and "db' = db(cart_id c \<mapsto> c')"
  using assms cart_save_outcome[of now c db]
  by (auto simp: save_outcome_def split: if_splits)

subsection \<open>Evaluation on the example\<close>

lemma fl_minus_3: "fl (- 3) = - 3"
  by code_simp

lemma example_cart_valid: "cart_valid example_cart"
  by (simp add: cart_valid_def cart_item_valid_def example_cart_def)

text \<open>The scenario of the specification: subtotal 30, and a total floored at 0.\<close>

lemma example_cart_recomputed:
  "recomputed 1 example_cart =
     example_cart
       \<lparr>items := [\<lparr>productId = ''p1'', quantity = 3, price = 10, totalPrice = 30\<rparr>],
        subtotal := 30, totalItems := 3, total := 0, lastModified := 1\<rparr>"
  by (simp add: recomputed_def example_cart_def line_total_def js_sum_def js_add_def
      js_mul_def js_sub_def fl_minus_3 Let_def)

text \<open>
  Claim C1. A save of a cart first validates it. When the cart passes, the stored document
  is the cart with its line totals, subtotal, item count and total recomputed from its own
  items and charges (in the arithmetic of the code: the subtotal is the sum over the items
  of price times quantity, the item count the sum of the quantities, the total the maximum
  of 0 and subtotal + tax + shipping - discount), so that the stored document satisfies the
  invariant and the derived values that a caller supplied do not reach it; when it fails,
  nothing is written. Each of addItem, updateItemQuantity, removeItem, clearCart,
  applyCoupon and removeCoupon is such a save of the cart it has edited.
\<close>

theorem cart_totals_after_persist:
  "save_outcome now c db (cart_save now c db) \<and>
   (cart_save now c db = (db', Inr c') \<longrightarrow>
      cart_valid c \<and> c' = recomputed now c \<and> db' = db(cart_id c \<mapsto> c') \<and>
      totals_consistent c') \<and>
   totals_consistent (recomputed now c) \<and>
   recomputed now
     (c\<lparr>items := map (\<lambda>item. item\<lparr>totalPrice := g item\<rparr>) (items c),
        subtotal := s, totalItems := n, total := t\<rparr>) = recomputed now c \<and>
   save_outcome now
     (let q = (case q_opt of None \<Rightarrow> 1 | Some q \<Rightarrow> q);
          i = findIndex (\<lambda>item. productId item = pid) (items c)
      in if 0 \<le> i
         then c\<lparr>items := (items c)[nat i :=
                  (items c ! nat i)\<lparr>quantity := js_add (quantity (items c ! nat i)) q,
                                     price := pr\<rparr>]\<rparr>
         else c\<lparr>items := items c @
                  [\<lparr>productId = pid, quantity = q, price = pr, totalPrice = js_mul pr q\<rparr>]\<rparr>)
     db (addItem now pid q_opt pr c db) \<and>
   (let i = findIndex (\<lambda>item. productId item = pid) (items c)
    in if 0 \<le> i
       then save_outcome now
              (if qty \<le> 0 then c\<lparr>items := splice1 (nat i) (items c)\<rparr>
               else c\<lparr>items := (items c)[nat i := (items c ! nat i)\<lparr>quantity := qty\<rparr>]\<rparr>)
              db (updateItemQuantity now pid qty c db)
       else updateItemQuantity now pid qty c db = (db, Inl (Error ''Item not found in cart''))) \<and>
   save_outcome now (c\<lparr>items := filter (\<lambda>item. productId item \<noteq> pid) (items c)\<rparr>) db
     (removeItem now pid c db) \<and>
   save_outcome now (c\<lparr>items := [], couponCode := None, discount := 0\<rparr>) db
     (clearCart now c db) \<and>
   save_outcome now (c\<lparr>couponCode := Some (trim code), discount := amount\<rparr>) db
     (applyCoupon now code amount c db) \<and>
   save_outcome now (c\<lparr>couponCode := None, discount := 0\<rparr>) db (removeCoupon now c db)"
proof -
  have direct: "cart_save now c db = (db', Inr c') \<longrightarrow>
      cart_valid c \<and> c' = recomputed now c \<and> db' = db(cart_id c \<mapsto> c') \<and>
      totals_consistent c'"
    using cart_save_Inr[of now c db db' c'] recomputed_consistent[of now c] by blast
  have add: "save_outcome now
     (let q = (case q_opt of None \<Rightarrow> 1 | Some q \<Rightarrow> q);
          i = findIndex (\<lambda>item. productId item = pid) (items c)
      in if 0 \<le> i
         then c\<lparr>items := (items c)[nat i :=
                  (items c ! nat i)\<lparr>quantity := js_add (quantity (items c ! nat i)) q,
                                     price := pr\<rparr>]\<rparr>
         else c\<lparr>items := items c @
                  [\<lparr>productId = pid, quantity = q, price = pr, totalPrice = js_mul pr q\<rparr>]\<rparr>)
     db (addItem now pid q_opt pr c db)"
    by (simp add: addItem_def Let_def cart_save_outcome)
  have upd: "(let i = findIndex (\<lambda>item. productId item = pid) (items c)
    in if 0 \<le> i
       then save_outcome now
              (if qty \<le> 0 then c\<lparr>items := splice1 (nat i) (items c)\<rparr>
               else c\<lparr>items := (items c)[nat i := (items c ! nat i)\<lparr>quantity := qty\<rparr>]\<rparr>)
              db (updateItemQuantity now pid qty c db)
       else updateItemQuantity now pid qty c db = (db, Inl (Error ''Item not found in cart'')))"
    by (simp add: updateItemQuantity_def Let_def cart_save_outcome)
  have rem: "save_outcome now (c\<lparr>items := filter (\<lambda>item. productId item \<noteq> pid) (items c)\<rparr>)
      db (removeItem now pid c db)"
    by (simp add: removeItem_def cart_save_outcome)
  have clr: "save_outcome now (c\<lparr>items := [], couponCode := None, discount := 0\<rparr>) db
     (clearCart now c db)"
    by (simp add: clearCart_def cart_save_outcome)
  have app: "save_outcome now (c\<lparr>couponCode := Some (trim code), discount := amount\<rparr>) db
     (applyCoupon now code amount c db)"
    by (simp add: applyCoupon_def cart_save_outcome)
  have rmc: "save_outcome now (c\<lparr>couponCode := None, discount := 0\<rparr>) db
      (removeCoupon now c db)"
    by (simp add: removeCoupon_def cart_save_outcome)
  show ?thesis
    using cart_save_outcome[of now c db] direct recomputed_consistent[of now c]
      recomputed_overwrites[where now = now and c = c and g = g and s = s and n = n and t = t]
      add upd rem clr app rmc
    by (intro conjI)
qed

theorem cart_totals_after_persist_witness:
  "cart_save 1 example_cart Map.empty =
     (Map.empty(''c1'' \<mapsto> recomputed 1 example_cart), Inr (recomputed 1 example_cart)) \<and>
   cart_valid example_cart \<and>
   subtotal (recomputed 1 example_cart) = 30 \<and>
   totalItems (recomputed 1 example_cart) = 3 \<and>
   total (recomputed 1 example_cart) = 0 \<and>
   map totalPrice (items (recomputed 1 example_cart)) = [30] \<and>
   totals_consistent (recomputed 1 example_cart)"
proof -
  have s: "cart_save 1 example_cart Map.empty =
     (Map.empty(''c1'' \<mapsto> recomputed 1 example_cart), Inr (recomputed 1 example_cart))"
    using cart_save_valid[OF example_cart_valid, of 1 Map.empty]
    by (simp add: example_cart_def)
  from cart_totals_after_persist[where now = 1 and c = example_cart and db = Map.empty
      and db' = "Map.empty(''c1'' \<mapsto> recomputed 1 example_cart)"
      and c' = "recomputed 1 example_cart"] s
  have v: "cart_valid example_cart" and t: "totals_consistent (recomputed 1 example_cart)"
    by blast+
  have n: "subtotal (recomputed 1 example_cart) = 30"
    "totalItems (recomputed 1 example_cart) = 3"
    "total (recomputed 1 example_cart) = 0"
    "map totalPrice (items (recomputed 1 example_cart)) = [30]"
    unfolding example_cart_recomputed by (simp_all add: example_cart_def)
  from s v t n show ?thesis by blast
qed

text \<open>
  Claim C10. clearCart empties the items and resets the coupon code and the discount, and
  leaves tax and shipping as they were. When the reset cart passes validation it is saved:
  the stored document has no item, subtotal 0, item count 0 and as total the maximum of 0
  and tax + shipping, which is tax + shipping rounded, and not 0 whenever that sum is
  positive. Otherwise the call throws and the collection is as it was. The tax and the
  shipping charge of a cart are Numbers.
\<close>

theorem clearCart_totals:
  assumes "is_double (tax c)" and "is_double (shipping c)"
  shows "(let cleared = c\<lparr>items := [], couponCode := None, discount := 0\<rparr>;
              c' = recomputed now cleared
          in (cart_valid cleared \<longrightarrow>
                clearCart now c db = (db(cart_id c \<mapsto> c'), Inr c') \<and>
                items c' = [] \<and> couponCode c' = None \<and> discount c' = 0 \<and>
                tax c' = tax c \<and> shipping c' = shipping c \<and>
                subtotal c' = 0 \<and> totalItems c' = 0 \<and>
                total c' = max 0 (js_add (tax c) (shipping c)) \<and>
                total c' = js_add (tax c) (shipping c) \<and>
                (0 < tax c + shipping c \<longrightarrow> total c' \<noteq> 0)) \<and>
             (\<not> cart_valid cleared \<longrightarrow> clearCart now c db = (db, Inl ValidationError)) \<and>
             (cart_valid c \<longrightarrow> cart_valid cleared))"
proof -
  define cleared where "cleared = c\<lparr>items := [], couponCode := None, discount := 0\<rparr>"
  define c' where "c' = recomputed now cleared"
  have run: "clearCart now c db = cart_save now cleared db"
    by (simp add: clearCart_def cleared_def)
  have id: "cart_id cleared = cart_id c" by (simp add: cleared_def)
  have ok: "clearCart now c db = (db(cart_id c \<mapsto> c'), Inr c')" if "cart_valid cleared"
    unfolding run c'_def using cart_save_valid[OF that, of now db] by (simp add: id)
  have bad: "clearCart now c db = (db, Inl ValidationError)" if "\<not> cart_valid cleared"
    unfolding run using that by (rule cart_save_invalid)
  have frame: "items c' = []" "couponCode c' = None" "discount c' = 0"
    "tax c' = tax c" "shipping c' = shipping c" "subtotal c' = 0" "totalItems c' = 0"
    by (simp_all add: c'_def cleared_def recomputed_def js_sum_def Let_def)
  have tot: "total c' = max 0 (js_add (tax c) (shipping c))"
    "total c' = js_add (tax c) (shipping c)"
    "0 < tax c + shipping c \<longrightarrow> total c' \<noteq> 0" if v: "cart_valid cleared"
  proof -
    have nn: "0 \<le> tax c" "0 \<le> shipping c"
      using v by (simp_all add: cart_valid_def cleared_def)
    then have sum: "0 \<le> tax c + shipping c" by simp
    have t0: "js_add 0 (tax c) = tax c"
      using assms(1) by (simp add: js_add_def is_double_def)
    have t1: "js_sub (js_add (tax c) (shipping c)) 0 = js_add (tax c) (shipping c)"
      using fl_idem[OF sum] by (simp add: js_sub_def js_add_def)
    have raw: "total c' = max 0 (js_add (tax c) (shipping c))"
      by (simp add: c'_def cleared_def recomputed_def js_sum_def Let_def t0 t1)
    have ge: "0 \<le> js_add (tax c) (shipping c)"
      unfolding js_add_def using sum by (rule fl_nonneg)
    show "total c' = max 0 (js_add (tax c) (shipping c))" by (rule raw)
    show "total c' = js_add (tax c) (shipping c)" using raw ge by simp
    show "0 < tax c + shipping c \<longrightarrow> total c' \<noteq> 0"
      using raw ge fl_pos[of "tax c + shipping c"] by (auto simp: js_add_def)
  qed
  have keep: "cart_valid c \<longrightarrow> cart_valid cleared"
    by (simp add: cart_valid_def cleared_def)
  show ?thesis
    unfolding Let_def cleared_def[symmetric] c'_def[symmetric]
    using ok bad frame tot keep by blast
qed

theorem clearCart_totals_witness:
  "is_double (tax example_cart) \<and> is_double (shipping example_cart) \<and>
   cart_valid (example_cart\<lparr>items := [], couponCode := None, discount := 0\<rparr>) \<and>
   0 < tax example_cart + shipping example_cart \<and>
   clearCart 1 example_cart Map.empty =
     (Map.empty(''c1'' \<mapsto>
        example_cart\<lparr>items := [], couponCode := None, discount := 0, subtotal := 0,
                     totalItems := 0, total := 7, lastModified := 1\<rparr>),
      Inr (example_cart\<lparr>items := [], couponCode := None, discount := 0, subtotal := 0,
                        totalItems := 0, total := 7, lastModified := 1\<rparr>))"
proof -
  have d: "is_double (tax example_cart)" "is_double (shipping example_cart)"
    by (simp_all add: is_double_def example_cart_def)
  have v: "cart_valid (example_cart\<lparr>items := [], couponCode := None, discount := 0\<rparr>)"
    by (simp add: cart_valid_def example_cart_def)
  have r: "recomputed 1 (example_cart\<lparr>items := [], couponCode := None, discount := 0\<rparr>) =
      example_cart\<lparr>items := [], couponCode := None, discount := 0, subtotal := 0,
                   totalItems := 0, total := 7, lastModified := 1\<rparr>"
    by (simp add: recomputed_def example_cart_def js_sum_def js_add_def js_sub_def Let_def)
  from clearCart_totals[OF d, of 1 Map.empty] v
  have "clearCart 1 example_cart Map.empty =
     (Map.empty(cart_id example_cart \<mapsto>
        recomputed 1 (example_cart\<lparr>items := [], couponCode := None, discount := 0\<rparr>)),
      Inr (recomputed 1 (example_cart\<lparr>items := [], couponCode := None, discount := 0\<rparr>)))"
    by (simp add: Let_def)
  then show ?thesis
    using d v unfolding r by (simp add: example_cart_def)
qed

subsection \<open>updateItemQuantity\<close>

lemma findIndex_from_none:
  "\<not> (\<exists>x \<in> set xs. P x) \<Longrightarrow> findIndex_from P xs k = - 1"
  by (induction xs arbitrary: k) auto

lemma findIndex_from_some:
  "\<exists>x \<in> set xs. P x \<Longrightarrow>
     k \<le> findIndex_from P xs k \<and> nat (findIndex_from P xs k - k) < length xs \<and>
     P (xs ! nat (findIndex_from P xs k - k)) \<and>
     (\<forall>j < nat (findIndex_from P xs k - k). \<not> P (xs ! j))"
proof (induction xs arbitrary: k)
  case Nil
  then show ?case by simp
next
  case (Cons x xs)
  show ?case
  proof (cases "P x")
    case True
    then show ?thesis by simp
  next
    case False
    with Cons.prems have ex: "\<exists>x \<in> set xs. P x" by auto
    from Cons.IH[OF ex, of "k + 1"] have
      le: "k + 1 \<le> findIndex_from P xs (k + 1)" and
      lt: "nat (findIndex_from P xs (k + 1) - (k + 1)) < length xs" and
      hit: "P (xs ! nat (findIndex_from P xs (k + 1) - (k + 1)))" and
      first: "\<forall>j < nat (findIndex_from P xs (k + 1) - (k + 1)). \<not> P (xs ! j)"
      by auto
    define m where "m = nat (findIndex_from P xs (k + 1) - (k + 1))"
    have idx: "nat (findIndex_from P xs (k + 1) - k) = Suc m"
      using le by (simp add: m_def nat_diff_distrib' Suc_nat_eq_nat_zadd1)
    show ?thesis
      using False le lt hit first idx unfolding m_def[symmetric]
      by (auto simp: less_Suc_eq_0_disj)
  qed
qed

lemma findIndex_absent: "\<not> (\<exists>x \<in> set xs. P x) \<Longrightarrow> findIndex P xs = - 1"
  by (simp add: findIndex_def findIndex_from_none)

lemma findIndex_present:
  assumes "\<exists>x \<in> set xs. P x"
  shows "0 \<le> findIndex P xs" and "nat (findIndex P xs) < length xs"
    and "P (xs ! nat (findIndex P xs))" and "\<forall>j < nat (findIndex P xs). \<not> P (xs ! j)"
  using findIndex_from_some[OF assms, of 0] by (simp_all add: findIndex_def)

lemma splice1_removes:
  assumes "distinct (map f xs)" and "i < length xs"
  shows "f (xs ! i) \<notin> f ` set (splice1 i xs)"
proof -
  have "xs = take i xs @ xs ! i # drop (Suc i) xs"
    using assms(2) by (rule id_take_nth_drop)
  then have "distinct (map f (take i xs @ xs ! i # drop (Suc i) xs))"
    using assms(1) by simp
  then show ?thesis by (auto simp: splice1_def)
qed

lemma productId_line_total: "productId (line_total item) = productId item"
  by (simp add: line_total_def)

lemma quantity_line_total: "quantity (line_total item) = quantity item"
  by (simp add: line_total_def)

text \<open>Validation of the edited cart: a removal keeps a valid cart valid, and a new quantity
  is accepted exactly when it is at least 1.\<close>

lemma cart_valid_splice1:
  assumes "cart_valid c"
  shows "cart_valid (c\<lparr>items := splice1 i (items c)\<rparr>)"
proof -
  have "set (splice1 i (items c)) \<subseteq> set (items c)"
    by (auto simp: splice1_def dest: in_set_takeD in_set_dropD)
  with assms show ?thesis by (auto simp: cart_valid_def list_all_iff)
qed

lemma cart_valid_quantity:
  assumes "cart_valid c" and "i < length (items c)"
  shows "cart_valid (c\<lparr>items := (items c)[i := (items c ! i)\<lparr>quantity := q\<rparr>]\<rparr>) \<longleftrightarrow> 1 \<le> q"
proof -
  have old: "cart_item_valid (items c ! j)" if "j < length (items c)" for j
    using assms(1) that by (simp add: cart_valid_def list_all_length)
  have new: "cart_item_valid ((items c ! i)\<lparr>quantity := q\<rparr>) \<longleftrightarrow> 1 \<le> q"
    using old[OF assms(2)] by (simp add: cart_item_valid_def)
  have "list_all cart_item_valid ((items c)[i := (items c ! i)\<lparr>quantity := q\<rparr>]) \<longleftrightarrow> 1 \<le> q"
  proof
    assume "list_all cart_item_valid ((items c)[i := (items c ! i)\<lparr>quantity := q\<rparr>])"
    then have "\<forall>n < length (items c).
        cart_item_valid ((items c)[i := (items c ! i)\<lparr>quantity := q\<rparr>] ! n)"
      by (simp add: list_all_length)
    then have "cart_item_valid ((items c)[i := (items c ! i)\<lparr>quantity := q\<rparr>] ! i)"
      using assms(2) by blast
    then show "1 \<le> q" using assms(2) new by simp
  next
    assume q: "1 \<le> q"
    have "cart_item_valid ((items c)[i := (items c ! i)\<lparr>quantity := q\<rparr>] ! n)"
      if "n < length (items c)" for n
      using that old[OF that] new q by (cases "n = i") simp_all
    then show "list_all cart_item_valid ((items c)[i := (items c ! i)\<lparr>quantity := q\<rparr>])"
      by (simp add: list_all_length)
  qed
  with assms(1) show ?thesis by (simp add: cart_valid_def)
qed

lemma updateItemQuantity_found:
  "0 \<le> findIndex (\<lambda>item. productId item = pid) (items c) \<Longrightarrow>
   updateItemQuantity now pid qty c db =
     (let i = nat (findIndex (\<lambda>item. productId item = pid) (items c))
      in cart_save now
           (if qty \<le> 0 then c\<lparr>items := splice1 i (items c)\<rparr>
            else c\<lparr>items := (items c)[i := (items c ! i)\<lparr>quantity := qty\<rparr>]\<rparr>) db)"
  by (simp add: updateItemQuantity_def Let_def)

lemma updateItemQuantity_absent:
  "findIndex (\<lambda>item. productId item = pid) (items c) = - 1 \<Longrightarrow>
   updateItemQuantity now pid qty c db = (db, Inl (Error ''Item not found in cart''))"
  by (simp add: updateItemQuantity_def Let_def)

text \<open>
  Claim C4, as the code has it. Let \<open>i\<close> be the index of the first item of a cart that
  passes validation, for the product. When there is such an item and the quantity passed is
  0 or less, updateItemQuantity removes the item at \<open>i\<close> and saves (a cart that holds one
  item per product then holds none for the product); when the quantity is at least 1 it
  sets the quantity of the item at \<open>i\<close> and saves; a quantity between 0 and 1 fails the
  validator of the quantity, the call throws and the collection is as it was; and when there
  is no item for the product the call throws the error "Item not found in cart" and the
  collection is as it was.
\<close>

theorem updateItemQuantity_spec:
  assumes "cart_valid c"
  shows
  "(let xs = items c;
        i = nat (findIndex (\<lambda>item. productId item = pid) xs);
        found = (\<exists>item \<in> set xs. productId item = pid);
        removed = recomputed now (c\<lparr>items := splice1 i xs\<rparr>);
        updated = recomputed now (c\<lparr>items := xs[i := (xs ! i)\<lparr>quantity := qty\<rparr>]\<rparr>);
        r = updateItemQuantity now pid qty c db
    in (found \<longrightarrow>
          i < length xs \<and> productId (xs ! i) = pid \<and> (\<forall>j < i. productId (xs ! j) \<noteq> pid)) \<and>
       (found \<and> qty \<le> 0 \<longrightarrow>
          r = (db(cart_id c \<mapsto> removed), Inr removed) \<and>
          items removed = map line_total (splice1 i xs) \<and>
          length (items removed) = length xs - 1 \<and>
          (distinct (map productId xs) \<longrightarrow> pid \<notin> productId ` set (items removed))) \<and>
       (found \<and> 1 \<le> qty \<longrightarrow>
          r = (db(cart_id c \<mapsto> updated), Inr updated) \<and>
          items updated = map line_total (xs[i := (xs ! i)\<lparr>quantity := qty\<rparr>]) \<and>
          productId (items updated ! i) = pid \<and> quantity (items updated ! i) = qty) \<and>
       (found \<and> 0 < qty \<and> qty < 1 \<longrightarrow> r = (db, Inl ValidationError)) \<and>
       (\<not> found \<longrightarrow> r = (db, Inl (Error ''Item not found in cart''))))"
proof (cases "\<exists>item \<in> set (items c). productId item = pid")
  case False
  from findIndex_absent[OF False]
  have "updateItemQuantity now pid qty c db = (db, Inl (Error ''Item not found in cart''))"
    by (rule updateItemQuantity_absent)
  with False show ?thesis by (simp add: Let_def)
next
  case True
  define i where "i = nat (findIndex (\<lambda>item. productId item = pid) (items c))"
  define removed where "removed = recomputed now (c\<lparr>items := splice1 i (items c)\<rparr>)"
  define updated where
    "updated = recomputed now (c\<lparr>items := (items c)[i := (items c ! i)\<lparr>quantity := qty\<rparr>]\<rparr>)"
  note fp = findIndex_present[OF True]
  have i_lt: "i < length (items c)" and i_hit: "productId (items c ! i) = pid"
    and i_first: "\<forall>j < i. productId (items c ! j) \<noteq> pid"
    using fp by (simp_all add: i_def)
  have r_eq: "updateItemQuantity now pid qty c db =
     cart_save now
       (if qty \<le> 0 then c\<lparr>items := splice1 i (items c)\<rparr>
        else c\<lparr>items := (items c)[i := (items c ! i)\<lparr>quantity := qty\<rparr>]\<rparr>) db"
    using updateItemQuantity_found[OF fp(1)] by (simp add: i_def Let_def)
  have rem: "updateItemQuantity now pid qty c db = (db(cart_id c \<mapsto> removed), Inr removed)"
    if "qty \<le> 0"
    unfolding removed_def
    using that cart_save_valid[OF cart_valid_splice1[OF assms, of i], of now db]
    by (simp add: r_eq)
  have upd: "updateItemQuantity now pid qty c db = (db(cart_id c \<mapsto> updated), Inr updated)"
    if "1 \<le> qty"
  proof -
    have "cart_valid (c\<lparr>items := (items c)[i := (items c ! i)\<lparr>quantity := qty\<rparr>]\<rparr>)"
      using cart_valid_quantity[OF assms i_lt, of qty] that by simp
    from cart_save_valid[OF this, of now db] that show ?thesis
      unfolding updated_def by (simp add: r_eq)
  qed
  have rej: "updateItemQuantity now pid qty c db = (db, Inl ValidationError)"
    if "0 < qty" and "qty < 1"
  proof -
    have "\<not> cart_valid (c\<lparr>items := (items c)[i := (items c ! i)\<lparr>quantity := qty\<rparr>]\<rparr>)"
      using cart_valid_quantity[OF assms i_lt, of qty] that by simp
    from cart_save_invalid[OF this, of now db] that show ?thesis
      by (simp add: r_eq)
  qed
  have it_rem: "items removed = map line_total (splice1 i (items c))"
    by (simp add: removed_def recomputed_frame)
  have it_upd: "items updated = map line_total ((items c)[i := (items c ! i)\<lparr>quantity := qty\<rparr>])"
    by (simp add: updated_def recomputed_frame)
  have len: "length (items removed) = length (items c) - 1"
    using i_lt by (simp add: it_rem splice1_def)
  have gone: "distinct (map productId (items c)) \<longrightarrow> pid \<notin> productId ` set (items removed)"
  proof
    assume "distinct (map productId (items c))"
    from splice1_removes[OF this i_lt] i_hit
    show "pid \<notin> productId ` set (items removed)"
      by (auto simp: it_rem productId_line_total)
  qed
  have at_i: "productId (items updated ! i) = pid" "quantity (items updated ! i) = qty"
    using i_lt i_hit by (simp_all add: it_upd productId_line_total quantity_line_total)
  show ?thesis
    unfolding Let_def i_def[symmetric] removed_def[symmetric] updated_def[symmetric]
    using True i_lt i_hit i_first rem upd rej it_rem it_upd len gone at_i
    by (intro conjI impI) auto
qed

lemma example_cart_found: "\<exists>item \<in> set (items example_cart). productId item = ''p1''"
  by (simp add: example_cart_def)

lemma example_cart_index:
  "nat (findIndex (\<lambda>item. productId item = ''p1'') (items example_cart)) = 0"
  by (simp add: example_cart_def findIndex_def)

theorem updateItemQuantity_spec_witness:
  "cart_valid example_cart \<and>
   (\<exists>item \<in> set (items example_cart). productId item = ''p1'') \<and>
   updateItemQuantity 1 ''p1'' 0 example_cart Map.empty =
     (Map.empty(''c1'' \<mapsto> recomputed 1 (example_cart\<lparr>items := []\<rparr>)),
      Inr (recomputed 1 (example_cart\<lparr>items := []\<rparr>))) \<and>
   updateItemQuantity 1 ''p1'' 5 example_cart Map.empty =
     (Map.empty(''c1'' \<mapsto> recomputed 1
        (example_cart\<lparr>items :=
           [\<lparr>productId = ''p1'', quantity = 5, price = 10, totalPrice = 0\<rparr>]\<rparr>)),
      Inr (recomputed 1
        (example_cart\<lparr>items :=
           [\<lparr>productId = ''p1'', quantity = 5, price = 10, totalPrice = 0\<rparr>]\<rparr>))) \<and>
   updateItemQuantity 1 ''p1'' (1 / 2) example_cart Map.empty =
     (Map.empty, Inl ValidationError) \<and>
   \<not> (\<exists>item \<in> set (items example_cart). productId item = ''p9'') \<and>
   updateItemQuantity 1 ''p9'' 5 example_cart Map.empty =
     (Map.empty, Inl (Error ''Item not found in cart''))"
proof -
  note w = updateItemQuantity_spec[OF example_cart_valid, where now = 1 and db = Map.empty]
  have absent: "\<not> (\<exists>item \<in> set (items example_cart). productId item = ''p9'')"
    by (simp add: example_cart_def)
  have xs: "splice1 0 (items example_cart) = []"
    "(items example_cart)[0 := (items example_cart ! 0)\<lparr>quantity := 5\<rparr>] =
       [\<lparr>productId = ''p1'', quantity = 5, price = 10, totalPrice = 0\<rparr>]"
    "cart_id example_cart = ''c1''"
    by (simp_all add: example_cart_def splice1_def)
  have r0: "updateItemQuantity 1 ''p1'' 0 example_cart Map.empty =
     (Map.empty(''c1'' \<mapsto> recomputed 1 (example_cart\<lparr>items := []\<rparr>)),
      Inr (recomputed 1 (example_cart\<lparr>items := []\<rparr>)))"
    using w[where pid = "''p1''" and qty = 0] example_cart_found
    by (simp add: Let_def example_cart_index xs)
  have r5: "updateItemQuantity 1 ''p1'' 5 example_cart Map.empty =
     (Map.empty(''c1'' \<mapsto> recomputed 1
        (example_cart\<lparr>items :=
           [\<lparr>productId = ''p1'', quantity = 5, price = 10, totalPrice = 0\<rparr>]\<rparr>)),
      Inr (recomputed 1
        (example_cart\<lparr>items :=
           [\<lparr>productId = ''p1'', quantity = 5, price = 10, totalPrice = 0\<rparr>]\<rparr>)))"
    using w[where pid = "''p1''" and qty = 5] example_cart_found
    by (simp add: Let_def example_cart_index xs)
  have rh: "updateItemQuantity 1 ''p1'' (1 / 2) example_cart Map.empty =
     (Map.empty, Inl ValidationError)"
    using w[where pid = "''p1''" and qty = "1 / 2"] example_cart_found
    by (simp add: Let_def)
  have r9: "updateItemQuantity 1 ''p9'' 5 example_cart Map.empty =
     (Map.empty, Inl (Error ''Item not found in cart''))"
    using w[where pid = "''p9''" and qty = 5] absent
    by (simp add: Let_def)
  from example_cart_valid example_cart_found r0 r5 rh absent r9 show ?thesis by blast
qed

text \<open>
  The claim as written has every positive quantity set and saved. The schema gives the
  quantity of an item a minimum of 1, and the save validates before it writes: on a cart
  that passes validation, with an item for the product, the quantity one half is refused
  and nothing is stored.
\<close>

theorem updateItemQuantity_fraction_counterexample:
  "cart_valid example_cart \<and>
   (\<exists>item \<in> set (items example_cart). productId item = ''p1'') \<and>
   (0 :: rat) < 1 / 2 \<and>
   updateItemQuantity 1 ''p1'' (1 / 2) example_cart Map.empty =
     (Map.empty, Inl ValidationError)"
proof -
  have idx: "findIndex (\<lambda>item. productId item = ''p1'') (items example_cart) = 0"
    by (simp add: example_cart_def findIndex_def)
  have bad: "\<not> cart_valid
      (example_cart\<lparr>items := (items example_cart)[0 := (items example_cart ! 0)\<lparr>quantity := 1 / 2\<rparr>]\<rparr>)"
    by (simp add: cart_valid_def cart_item_valid_def example_cart_def)
  have "updateItemQuantity 1 ''p1'' (1 / 2) example_cart Map.empty =
     (Map.empty, Inl ValidationError)"
    using cart_save_invalid[OF bad, of 1 Map.empty]
    by (simp add: updateItemQuantity_def idx Let_def)
  with example_cart_valid example_cart_found show ?thesis by simp
qed

section \<open>Properties of the product\<close>

lemma product_pre_save_frame:
  "reviews (product_pre_save p) = reviews p"
  "product_id (product_pre_save p) = product_id p"
  "reviewCount (product_pre_save p) = of_nat (length (reviews p))"
  by (simp_all add: product_pre_save_def Let_def)

lemma product_save_valid:
  "product_valid p \<Longrightarrow>
   product_save p db = (db(product_id p \<mapsto> product_pre_save p), Inr (product_pre_save p))"
  by (simp add: product_save_def Let_def product_pre_save_frame)

lemma product_save_invalid:
  "\<not> product_valid p \<Longrightarrow> product_save p db = (db, Inl ValidationError)"
  by (simp add: product_save_def)

lemma product_save_Inr:
  assumes "product_save p db = (db', Inr p')"
  shows "product_valid p" and "p' = product_pre_save p" and "db' = db(product_id p \<mapsto> p')"
  using assms
  by (auto simp: product_save_def Let_def product_pre_save_frame split: if_splits)

lemma sum_list_of_int_map: "sum_list (map of_int ks) = (of_int (sum_list ks) :: rat)"
  by (induction ks) simp_all

lemma sum_list_whole_bounds:
  assumes "\<forall>k \<in> set ks. 1 \<le> k \<and> k \<le> (5::int)"
  shows "int (length ks) \<le> sum_list ks" and "sum_list ks \<le> 5 * int (length ks)"
  using assms by (induction ks) auto

text \<open>
  The hook on whole ratings: the stored rating is the Number nearest to the mean rounded to
  one decimal place.
\<close>

lemma product_pre_save_whole:
  assumes valid: "list_all review_valid (reviews p)"
    and whole: "list_all whole_rating (reviews p)"
    and len: "length (reviews p) < 2 ^ 32"
    and ne: "reviews p \<noteq> []"
  shows "rating (product_pre_save p) = fl (round_1_decimal (mean_rating (reviews p)))"
proof -
  define rs where "rs = reviews p"
  define ks where "ks = map (\<lambda>rv. \<lfloor>review.rating rv\<rfloor>) rs"
  define n where "n = int (length rs)"
  define S where "S = sum_list ks"
  have rat: "map review.rating rs = map of_int ks"
    using whole by (simp add: ks_def rs_def list_all_iff whole_rating_def)
  have range: "\<forall>k \<in> set ks. 1 \<le> k \<and> k \<le> 5"
  proof
    fix k assume "k \<in> set ks"
    then obtain rv where rv: "rv \<in> set rs" and k: "k = \<lfloor>review.rating rv\<rfloor>"
      by (auto simp: ks_def)
    from rv valid have "1 \<le> review.rating rv" "review.rating rv \<le> 5"
      by (simp_all add: rs_def list_all_iff review_valid_def)
    then show "1 \<le> k \<and> k \<le> 5" unfolding k by (simp add: le_floor_iff floor_le_iff)
  qed
  have lk: "length ks = length rs" by (simp add: ks_def)
  have n0: "0 < n" using ne by (simp add: n_def rs_def)
  have n32: "n < 2 ^ 32" using len by (simp add: n_def rs_def)
  have nS: "n \<le> S" and S5: "S \<le> 5 * n"
    using sum_list_whole_bounds[OF range] by (simp_all add: S_def n_def lk)
  have "(0::int) + 5 * int (length ks) < 2 ^ 53" using n32 by (simp add: lk n_def)
  from whole_sum_exact[OF range _ this]
  have "foldl js_add 0 (map of_int ks) = of_int S" by (simp add: S_def)
  then have total: "foldl (\<lambda>sum rv. js_add sum (review.rating rv)) 0 rs = of_int S"
    by (simp add: rat[symmetric] foldl_map)
  have count: "(of_nat (length rs) :: rat) = of_int n" by (simp add: n_def)
  have mean: "mean_rating rs = of_int S / of_int n"
    by (simp only: mean_rating_def rat sum_list_of_int_map S_def count)
  have K: "Math_round (js_mul (js_div (of_int S) (of_int n)) 10) =
      round (mean_rating rs * 10)"
    using rating_round_exact[OF n0 n32 nS S5]
    by (simp add: js_mul_def js_div_def mean round_def mult.commute)
  have "rating (product_pre_save p) =
      js_div (of_int (Math_round (js_mul (js_div (of_int S) (of_int n)) 10))) 10"
    using ne total count by (simp add: product_pre_save_def Let_def rs_def[symmetric])
  then have "rating (product_pre_save p) = js_div (of_int (round (mean_rating rs * 10))) 10"
    unfolding K .
  then show ?thesis
    by (simp add: js_div_def round_1_decimal_def rs_def)
qed

lemma product_pre_save_eq:
  "product_pre_save p =
     p\<lparr>rating := rating (product_pre_save p), reviewCount := of_nat (length (reviews p))\<rparr>"
  by (simp add: product_pre_save_def Let_def)

text \<open>
  Claim C2, as the code has it. When a save of a product goes through (the product has
  passed validation), and the ratings of its reviews are whole numbers, as the data model of
  the specification has them, the stored document is the product with two fields replaced:
  the rating is the Number nearest to the mean of the ratings rounded to one decimal place,
  or 0 when there is no review, and reviewCount is the number of reviews. The rating and the
  reviewCount that the caller supplied do not reach the stored document: a save of the same
  product with other values for the two stores the same document. The bound on the number
  of reviews is the bound on the length of an array.
\<close>

theorem product_rating_after_persist:
  assumes "product_save p db = (db', Inr p')"
    and "list_all whole_rating (reviews p)"
    and "length (reviews p) < 2 ^ 32"
  shows "product_valid p \<and> db' = db(product_id p \<mapsto> p') \<and>
         p' = p\<lparr>rating := (if reviews p = [] then 0
                           else fl (round_1_decimal (mean_rating (reviews p)))),
                reviewCount := of_nat (length (reviews p))\<rparr> \<and>
         reviews p' = reviews p \<and>
         reviewCount p' = of_nat (length (reviews p')) \<and>
         rating p' = (if reviews p' = [] then 0
                      else fl (round_1_decimal (mean_rating (reviews p')))) \<and>
         (product_save (p\<lparr>rating := a, reviewCount := b\<rparr>) db = (db2, Inr p2) \<longrightarrow>
            p2 = p' \<and> db2 = db')"
proof -
  note s = product_save_Inr[OF assms(1)]
  have valid: "list_all review_valid (reviews p)" using s(1) by (simp add: product_valid_def)
  have r: "rating (product_pre_save p) =
      (if reviews p = [] then 0 else fl (round_1_decimal (mean_rating (reviews p))))"
  proof (cases "reviews p = []")
    case True
    then show ?thesis by (simp add: product_pre_save_def)
  next
    case False
    with product_pre_save_whole[OF valid assms(2,3)] show ?thesis by simp
  qed
  have p': "p' = p\<lparr>rating := (if reviews p = [] then 0
                           else fl (round_1_decimal (mean_rating (reviews p)))),
                reviewCount := of_nat (length (reviews p))\<rparr>"
    unfolding s(2) using product_pre_save_eq[of p] by (simp only: r)
  have other: "product_save (p\<lparr>rating := a, reviewCount := b\<rparr>) db = (db2, Inr p2) \<longrightarrow>
      p2 = p' \<and> db2 = db'"
  proof
    assume "product_save (p\<lparr>rating := a, reviewCount := b\<rparr>) db = (db2, Inr p2)"
    note t = product_save_Inr[OF this]
    have "product_pre_save (p\<lparr>rating := a, reviewCount := b\<rparr>) = product_pre_save p"
      by (simp add: product_pre_save_def Let_def)
    then have "p2 = p'" using t(2) s(2) by simp
    moreover have "db2 = db'" using t(3) s(3) \<open>p2 = p'\<close> by simp
    ultimately show "p2 = p' \<and> db2 = db'" by simp
  qed
  have rv: "reviews p' = reviews p" by (simp add: s(2) product_pre_save_frame)
  have cnt: "reviewCount p' = of_nat (length (reviews p'))"
    by (simp add: s(2) product_pre_save_frame)
  have rt: "rating p' =
      (if reviews p' = [] then 0 else fl (round_1_decimal (mean_rating (reviews p'))))"
    unfolding rv by (simp add: s(2) r)
  from s(1) s(3) p' rv cnt rt other show ?thesis by (intro conjI)
qed

subsection \<open>Evaluation on the examples\<close>

lemma example_product_valid: "product_valid example_product"
  by (simp add: product_valid_def review_valid_def example_product_def)

lemma example_product_whole: "list_all whole_rating (reviews example_product)"
  by (simp add: whole_rating_def example_product_def)

lemma example_product_mean:
  "round_1_decimal (mean_rating (reviews example_product)) = 4"
  by (simp add: round_1_decimal_def mean_rating_def example_product_def)

theorem product_rating_after_persist_witness:
  "product_save example_product Map.empty =
     (Map.empty(''p1'' \<mapsto> example_product\<lparr>rating := 4, reviewCount := 1\<rparr>),
      Inr (example_product\<lparr>rating := 4, reviewCount := 1\<rparr>)) \<and>
   list_all whole_rating (reviews example_product) \<and>
   length (reviews example_product) < 2 ^ 32 \<and>
   rating example_product = 5 \<and> reviewCount example_product = 7"
proof -
  have s: "product_save example_product Map.empty =
     (Map.empty(product_id example_product \<mapsto> product_pre_save example_product),
      Inr (product_pre_save example_product))"
    using example_product_valid by (rule product_save_valid)
  have l: "length (reviews example_product) < 2 ^ 32" by (simp add: example_product_def)
  from product_rating_after_persist[OF s example_product_whole l]
  have "product_pre_save example_product = example_product\<lparr>rating := 4, reviewCount := 1\<rparr>"
    by (simp add: example_product_mean) (simp add: example_product_def)
  with s example_product_whole l show ?thesis by (simp add: example_product_def)
qed

text \<open>
  The claim as written covers every rating that the schema accepts, and the schema accepts
  every Number from 1 to 5. The hook rounds in doubles, and on ratings that are not whole
  the stored rating can be one tenth away from the rounded mean. One review with the Number
  1.15, whose value is below 1.15: the mean rounds to 1.1, and the hook, for which the mean
  times ten is 11.5, stores 1.2. Two reviews with the Numbers 1.1 and 4.6: the mean of the
  two decimal numerals is 2.85, which rounds to 2.9, and the hook, for which the mean times
  ten is below 28.5, stores 2.8.
\<close>

theorem product_rating_fraction_counterexample:
  "product_valid borderline_product \<and>
   map review.rating (reviews borderline_product) = [fl (23 / 20)] \<and>
   fl (23 / 20) < 23 / 20 \<and>
   product_save borderline_product Map.empty =
     (Map.empty(''p1'' \<mapsto> product_pre_save borderline_product),
      Inr (product_pre_save borderline_product)) \<and>
   rating (product_pre_save borderline_product) = fl (12 / 10) \<and>
   round_1_decimal (mean_rating (reviews borderline_product)) = 11 / 10 \<and>
   fl (12 / 10) \<noteq> fl (11 / 10) \<and>
   product_valid fractional_product \<and>
   map review.rating (reviews fractional_product) = [fl (11 / 10), fl (46 / 10)] \<and>
   product_save fractional_product Map.empty =
     (Map.empty(''p1'' \<mapsto> product_pre_save fractional_product),
      Inr (product_pre_save fractional_product)) \<and>
   rating (product_pre_save fractional_product) = fl (28 / 10) \<and>
   round_1_decimal ((11 / 10 + 46 / 10) / 2) = 29 / 10 \<and>
   fl (28 / 10) \<noteq> fl (29 / 10)"
proof -
  have v1: "product_valid borderline_product" by code_simp
  have m1: "map review.rating (reviews borderline_product) = [fl (23 / 20)]"
    by (simp add: borderline_product_def)
  have b1: "fl (23 / 20) < 23 / 20" by code_simp
  have s1: "product_save borderline_product Map.empty =
     (Map.empty(''p1'' \<mapsto> product_pre_save borderline_product),
      Inr (product_pre_save borderline_product))"
    using product_save_valid[OF v1, of Map.empty]
    by (simp add: borderline_product_def example_product_def)
  have r1: "rating (product_pre_save borderline_product) = fl (12 / 10)" by code_simp
  have c1: "round_1_decimal (mean_rating (reviews borderline_product)) = 11 / 10"
    by code_simp
  have d1: "fl (12 / 10) \<noteq> fl (11 / 10)" by code_simp
  have v: "product_valid fractional_product" by code_simp
  have m: "map review.rating (reviews fractional_product) = [fl (11 / 10), fl (46 / 10)]"
    by (simp add: fractional_product_def)
  have s: "product_save fractional_product Map.empty =
     (Map.empty(''p1'' \<mapsto> product_pre_save fractional_product),
      Inr (product_pre_save fractional_product))"
    using product_save_valid[OF v, of Map.empty]
    by (simp add: fractional_product_def example_product_def)
  have r: "rating (product_pre_save fractional_product) = fl (28 / 10)" by code_simp
  have c: "round_1_decimal ((11 / 10 + 46 / 10) / 2) = 29 / 10" by code_simp
  have d: "fl (28 / 10) \<noteq> fl (29 / 10)" by code_simp
  from v1 m1 b1 s1 r1 c1 d1 v m s r c d show ?thesis by (intro conjI)
qed

subsection \<open>addReview\<close>

lemma addReview_Inr:
  assumes "addReview u r c p db = (db', Inr p')"
  shows "reviews p' =
           filter (\<lambda>rv. user rv \<noteq> u) (reviews p) @
             [\<lparr>user = u, review.rating = r, comment = trim (or_else c []), helpful = 0\<rparr>]"
    and "product_id p' = product_id p"
    and "db' = db(product_id p \<mapsto> p')"
proof -
  from assms have s: "product_save
      (p\<lparr>reviews := filter (\<lambda>rv. user rv \<noteq> u) (reviews p) @
         [\<lparr>user = u, review.rating = r, comment = trim (or_else c []), helpful = 0\<rparr>]\<rparr>) db =
      (db', Inr p')"
    by (simp add: addReview_def Let_def)
  note t = product_save_Inr[OF s]
  show "reviews p' =
           filter (\<lambda>rv. user rv \<noteq> u) (reviews p) @
             [\<lparr>user = u, review.rating = r, comment = trim (or_else c []), helpful = 0\<rparr>]"
    by (simp add: t(2) product_pre_save_frame)
  show "product_id p' = product_id p" by (simp add: t(2) product_pre_save_frame)
  then show "db' = db(product_id p \<mapsto> p')" using t(3) by simp
qed

text \<open>A call is accepted exactly when the product with the new review passes validation.\<close>

lemma addReview_accepts:
  assumes "product_valid p" and "1 \<le> r" and "r \<le> 5" and "length (trim (or_else c [])) \<le> 500"
  shows "\<exists>p'. addReview u r c p db = (db(product_id p \<mapsto> p'), Inr p')"
proof -
  have "product_valid
      (p\<lparr>reviews := filter (\<lambda>rv. user rv \<noteq> u) (reviews p) @
         [\<lparr>user = u, review.rating = r, comment = trim (or_else c []), helpful = 0\<rparr>]\<rparr>)"
    using assms by (simp add: product_valid_def review_valid_def list_all_iff)
  from product_save_valid[OF this, of db] show ?thesis
    by (simp add: addReview_def Let_def)
qed

lemma addReview_calls_spec:
  "calls \<noteq> [] \<Longrightarrow> addReview_calls u calls p db = (db', Inr p') \<Longrightarrow>
   db' (product_id p) = Some p' \<and> product_id p' = product_id p \<and>
   reviews p' =
     filter (\<lambda>rv. user rv \<noteq> u) (reviews p) @
       [\<lparr>user = u, review.rating = fst (last calls),
         comment = trim (or_else (snd (last calls)) []), helpful = 0\<rparr>]"
proof (induction calls arbitrary: p db rule: list_nonempty_induct)
  case (single x)
  obtain r c where x: "x = (r, c)" by (cases x)
  from single have a: "addReview u r c p db = (db', Inr p')"
    by (auto simp: x split: prod.splits sum.splits)
  from addReview_Inr[OF a] show ?case by (simp add: x)
next
  case (cons x xs)
  obtain r c where x: "x = (r, c)" by (cases x)
  from cons.prems obtain db1 p1 where
    a: "addReview u r c p db = (db1, Inr p1)" and
    rest: "addReview_calls u xs p1 db1 = (db', Inr p')"
    by (auto simp: x split: prod.splits sum.splits)
  note f = addReview_Inr[OF a]
  have others: "filter (\<lambda>rv. user rv \<noteq> u) (reviews p1) = filter (\<lambda>rv. user rv \<noteq> u) (reviews p)"
    by (simp add: f(1))
  from cons.IH[OF rest] cons.hyps show ?case
    by (simp add: others f(2))
qed

text \<open>
  Claim C3, as the code has it. After a non-empty run of addReview calls by one user, every
  one of which was accepted by the validation of the save, the stored product holds exactly
  one review of that user, with the rating of the last call and its comment trimmed (the
  empty comment when the call gave none), and the reviews of the other users are the ones
  the product had, in their order.
\<close>

theorem addReview_one_review_per_user:
  assumes "calls \<noteq> []" and "addReview_calls u calls p db = (db', Inr p')"
  shows "db' (product_id p) = Some p' \<and>
         filter (\<lambda>rv. user rv = u) (reviews p') =
           [\<lparr>user = u, review.rating = fst (last calls),
             comment = trim (or_else (snd (last calls)) []), helpful = 0\<rparr>] \<and>
         filter (\<lambda>rv. user rv \<noteq> u) (reviews p') = filter (\<lambda>rv. user rv \<noteq> u) (reviews p)"
  using addReview_calls_spec[OF assms] by simp

lemma trim_meh: "trim '' meh '' = ''meh''"
  by code_simp

lemma fl_9_2: "fl (9 / 2) = 9 / 2"
  by code_simp

lemma Math_round_30: "Math_round 30 = 30"
  by code_simp

lemma Math_round_45: "Math_round 45 = 45"
  by code_simp

lemma addReview_example_1:
  "addReview ''u1'' 2 (Some '' meh '') example_product Map.empty =
     (Map.empty(''p1'' \<mapsto>
        example_product
          \<lparr>reviews := [\<lparr>user = ''u2'', review.rating = 4, comment = ''good'', helpful = 2\<rparr>,
                       \<lparr>user = ''u1'', review.rating = 2, comment = ''meh'', helpful = 0\<rparr>],
           rating := 3, reviewCount := 2\<rparr>),
      Inr (example_product
          \<lparr>reviews := [\<lparr>user = ''u2'', review.rating = 4, comment = ''good'', helpful = 2\<rparr>,
                       \<lparr>user = ''u1'', review.rating = 2, comment = ''meh'', helpful = 0\<rparr>],
           rating := 3, reviewCount := 2\<rparr>))"
  by (simp add: addReview_def product_save_def product_valid_def review_valid_def
      product_pre_save_def example_product_def or_else_def trim_meh Let_def
      js_add_def js_div_def js_mul_def Math_round_30)

lemma addReview_example_2:
  "addReview ''u1'' 5 None
     (example_product
          \<lparr>reviews := [\<lparr>user = ''u2'', review.rating = 4, comment = ''good'', helpful = 2\<rparr>,
                       \<lparr>user = ''u1'', review.rating = 2, comment = ''meh'', helpful = 0\<rparr>],
           rating := 3, reviewCount := 2\<rparr>) db =
     (db(''p1'' \<mapsto>
        example_product
          \<lparr>reviews := [\<lparr>user = ''u2'', review.rating = 4, comment = ''good'', helpful = 2\<rparr>,
                       \<lparr>user = ''u1'', review.rating = 5, comment = [], helpful = 0\<rparr>],
           rating := 9 / 2, reviewCount := 2\<rparr>),
      Inr (example_product
          \<lparr>reviews := [\<lparr>user = ''u2'', review.rating = 4, comment = ''good'', helpful = 2\<rparr>,
                       \<lparr>user = ''u1'', review.rating = 5, comment = [], helpful = 0\<rparr>],
           rating := 9 / 2, reviewCount := 2\<rparr>))"
  by (simp add: addReview_def product_save_def product_valid_def review_valid_def
      product_pre_save_def example_product_def or_else_def trim_def Let_def
      js_add_def js_div_def js_mul_def Math_round_45 fl_9_2)

theorem addReview_one_review_per_user_witness:
  "[(2, Some '' meh ''), (5, None)] \<noteq> ([] :: (rat \<times> string option) list) \<and>
   addReview_calls ''u1'' [(2, Some '' meh ''), (5, None)] example_product Map.empty =
     (Map.empty(''p1'' \<mapsto>
        example_product
          \<lparr>reviews := [\<lparr>user = ''u2'', review.rating = 4, comment = ''good'', helpful = 2\<rparr>,
                       \<lparr>user = ''u1'', review.rating = 5, comment = [], helpful = 0\<rparr>],
           rating := 9 / 2, reviewCount := 2\<rparr>),
      Inr (example_product
          \<lparr>reviews := [\<lparr>user = ''u2'', review.rating = 4, comment = ''good'', helpful = 2\<rparr>,
                       \<lparr>user = ''u1'', review.rating = 5, comment = [], helpful = 0\<rparr>],
           rating := 9 / 2, reviewCount := 2\<rparr>)) \<and>
   filter (\<lambda>rv. user rv = ''u1'')
     (reviews (example_product
          \<lparr>reviews := [\<lparr>user = ''u2'', review.rating = 4, comment = ''good'', helpful = 2\<rparr>,
                       \<lparr>user = ''u1'', review.rating = 5, comment = [], helpful = 0\<rparr>],
           rating := 9 / 2, reviewCount := 2\<rparr>)) =
     [\<lparr>user = ''u1'', review.rating = 5, comment = [], helpful = 0\<rparr>]"
proof -
  have run: "addReview_calls ''u1'' [(2, Some '' meh ''), (5, None)] example_product Map.empty =
     (Map.empty(''p1'' \<mapsto>
        example_product
          \<lparr>reviews := [\<lparr>user = ''u2'', review.rating = 4, comment = ''good'', helpful = 2\<rparr>,
                       \<lparr>user = ''u1'', review.rating = 5, comment = [], helpful = 0\<rparr>],
           rating := 9 / 2, reviewCount := 2\<rparr>),
      Inr (example_product
          \<lparr>reviews := [\<lparr>user = ''u2'', review.rating = 4, comment = ''good'', helpful = 2\<rparr>,
                       \<lparr>user = ''u1'', review.rating = 5, comment = [], helpful = 0\<rparr>],
           rating := 9 / 2, reviewCount := 2\<rparr>))"
    by (simp add: addReview_example_1 addReview_example_2)
  have ne: "[(2, Some '' meh ''), (5, None)] \<noteq> ([] :: (rat \<times> string option) list)" by simp
  from addReview_one_review_per_user[OF ne run]
  have "filter (\<lambda>rv. user rv = ''u1'')
     (reviews (example_product
          \<lparr>reviews := [\<lparr>user = ''u2'', review.rating = 4, comment = ''good'', helpful = 2\<rparr>,
                       \<lparr>user = ''u1'', review.rating = 5, comment = [], helpful = 0\<rparr>],
           rating := 9 / 2, reviewCount := 2\<rparr>)) =
     [\<lparr>user = ''u1'', review.rating = 5, comment = [], helpful = 0\<rparr>]"
    by (simp add: or_else_def trim_def)
  with ne run show ?thesis by blast
qed

text \<open>
  The claim as written has the review carry the comment of the call. The comment of a review
  is a \<^verbatim>\<open>trim: true\<close> field: the call with the comment " meh " stores "meh".
\<close>

theorem addReview_trim_counterexample:
  "addReview ''u1'' 2 (Some '' meh '') example_product Map.empty =
     (Map.empty(''p1'' \<mapsto>
        example_product
          \<lparr>reviews := [\<lparr>user = ''u2'', review.rating = 4, comment = ''good'', helpful = 2\<rparr>,
                       \<lparr>user = ''u1'', review.rating = 2, comment = ''meh'', helpful = 0\<rparr>],
           rating := 3, reviewCount := 2\<rparr>),
      Inr (example_product
          \<lparr>reviews := [\<lparr>user = ''u2'', review.rating = 4, comment = ''good'', helpful = 2\<rparr>,
                       \<lparr>user = ''u1'', review.rating = 2, comment = ''meh'', helpful = 0\<rparr>],
           rating := 3, reviewCount := 2\<rparr>)) \<and>
   ''meh'' \<noteq> '' meh ''"
  using addReview_example_1 by simp

subsection \<open>searchProducts\<close>

lemma searchProducts_nonzero_bounds:
  "minPrice fs \<noteq> Some 0 \<Longrightarrow> maxPrice fs \<noteq> Some 0 \<Longrightarrow>
   price_bounds_applied fs (fst (searchProducts query fs))"
  by (cases "minPrice fs"; cases "maxPrice fs")
     (simp_all add: searchProducts_def price_bounds_applied_def truthy_number_def Let_def)

text \<open>
  Claim C5. The claim asks that a price bound that is supplied, 0 included, be the bound of
  the query. The function tests the bounds for truthiness, and 0 is falsy: with
  \<^verbatim>\<open>maxPrice: 0\<close> alone the query has no \<^verbatim>\<open>price\<close> key at all, and next to a minimum
  of 10 the upper bound 0 is dropped.
\<close>

theorem searchProducts_maxPrice_zero:
  "q_price (fst (searchProducts None (no_filters\<lparr>maxPrice := Some 0\<rparr>))) = None \<and>
   \<not> price_bounds_applied (no_filters\<lparr>maxPrice := Some 0\<rparr>)
       (fst (searchProducts None (no_filters\<lparr>maxPrice := Some 0\<rparr>))) \<and>
   q_price (fst (searchProducts None (no_filters\<lparr>minPrice := Some 10, maxPrice := Some 0\<rparr>))) =
     Some \<lparr>gte = Some 10, lte = None\<rparr>"
  by (simp add: searchProducts_def price_bounds_applied_def no_filters_def truthy_number_def
      truthy_string_def truthy_bool_def Let_def)

section \<open>Properties of the authentication routes\<close>

lemma truthy_string_Some [simp]: "truthy_string (Some s) \<longleftrightarrow> s \<noteq> []"
  by (simp add: truthy_string_def)

lemma or_else_Some: "s \<noteq> [] \<Longrightarrow> or_else (Some s) d = s"
  by (simp add: or_else_def)

lemma login_unknown_email:
  assumes "e \<noteq> []" and "pw \<noteq> []" and "findOne_email (toLowerCase e) db = None"
  shows "login ext env now \<lparr>l_email = Some e, l_password = Some pw\<rparr> db =
           (db, validation_failure 400 ''Invalid email or password'' ''email'')"
  using assms by (simp add: login_def Let_def or_else_Some)

lemma login_wrong_password:
  assumes "e \<noteq> []" and "pw \<noteq> []" and "findOne_email (toLowerCase e) db = Some u"
    and "isActive u" and "\<not> bcrypt_compare ext pw (password u)"
  shows "login ext env now \<lparr>l_email = Some e, l_password = Some pw\<rparr> db =
           (db, validation_failure 400 ''Invalid email or password'' ''password'')"
  using assms by (simp add: login_def Let_def or_else_Some)

lemma login_deactivated:
  assumes "e \<noteq> []" and "pw \<noteq> []" and "findOne_email (toLowerCase e) db = Some u"
    and "\<not> isActive u"
  shows "login ext env now \<lparr>l_email = Some e, l_password = Some pw\<rparr> db =
           (db, validation_failure 403 ''Account is deactivated. Please contact support.''
                  ''account'')"
  using assms by (simp add: login_def Let_def or_else_Some)

text \<open>
  Claim C6, as the code has it. A login request with a non-empty email and password, for an
  email that exists, an account that is active and a password that does not match, is
  answered with status 400 and the message "Invalid email or password", the status and the
  message of a request whose email matches no user; the first names the field "password",
  the second the field "email".
\<close>

theorem login_wrong_password_generic:
  assumes "e1 \<noteq> []" and "pw1 \<noteq> []" and "findOne_email (toLowerCase e1) db1 = Some u"
    and "isActive u" and "\<not> bcrypt_compare ext1 pw1 (password u)"
    and "e2 \<noteq> []" and "pw2 \<noteq> []" and "findOne_email (toLowerCase e2) db2 = None"
  shows "(let r1 = snd (login ext1 env1 now1 \<lparr>l_email = Some e1, l_password = Some pw1\<rparr> db1);
              r2 = snd (login ext2 env2 now2 \<lparr>l_email = Some e2, l_password = Some pw2\<rparr> db2)
          in status r1 = 400 \<and> status r2 = status r1 \<and>
             message r1 = ''Invalid email or password'' \<and> message r2 = message r1 \<and>
             field r1 = Some ''password'' \<and> field r2 = Some ''email'' \<and> field r1 \<noteq> field r2)"
  using login_wrong_password[OF assms(1-5), of env1 now1]
    login_unknown_email[OF assms(6-8), of ext2 env2 now2]
  by (simp add: Let_def validation_failure_def json_message_def)

lemma toLowerCase_ann: "toLowerCase ''ann@x.com'' = ''ann@x.com''"
  by (simp add: toLowerCase_def toLowerCase_char_def)

lemma toLowerCase_bob: "toLowerCase ''Bob@x.com'' = ''bob@x.com''"
  by code_simp

theorem login_wrong_password_generic_witness:
  "findOne_email (toLowerCase ''ann@x.com'') [ann] = Some ann \<and> isActive ann \<and>
   \<not> bcrypt_compare example_collaborators ''wrong1'' (password ann) \<and>
   findOne_email (toLowerCase ''Bob@x.com'') [ann] = None \<and>
   snd (login example_collaborators example_env 1
          \<lparr>l_email = Some ''ann@x.com'', l_password = Some ''wrong1''\<rparr> [ann]) =
     validation_failure 400 ''Invalid email or password'' ''password'' \<and>
   snd (login example_collaborators example_env 1
          \<lparr>l_email = Some ''Bob@x.com'', l_password = Some ''wrong1''\<rparr> [ann]) =
     validation_failure 400 ''Invalid email or password'' ''email''"
proof -
  have f1: "findOne_email (toLowerCase ''ann@x.com'') [ann] = Some ann"
    by (simp add: toLowerCase_ann findOne_email_def ann_def)
  have a1: "isActive ann" by (simp add: ann_def)
  have c1: "\<not> bcrypt_compare example_collaborators ''wrong1'' (password ann)"
    by (simp add: example_collaborators_def ann_def)
  have f2: "findOne_email (toLowerCase ''Bob@x.com'') [ann] = None"
    by (simp add: toLowerCase_bob findOne_email_def ann_def)
  have "''ann@x.com'' \<noteq> []" "''wrong1'' \<noteq> []" "''Bob@x.com'' \<noteq> []" by simp_all
  note w = login_wrong_password_generic[OF this(1) this(2) f1 a1 c1 this(3) this(2) f2,
      of example_env 1 example_collaborators example_env 1]
  have r1: "snd (login example_collaborators example_env 1
          \<lparr>l_email = Some ''ann@x.com'', l_password = Some ''wrong1''\<rparr> [ann]) =
     validation_failure 400 ''Invalid email or password'' ''password''"
    using f1 a1 c1 by (simp add: login_def Let_def or_else_def)
  have r2: "snd (login example_collaborators example_env 1
          \<lparr>l_email = Some ''Bob@x.com'', l_password = Some ''wrong1''\<rparr> [ann]) =
     validation_failure 400 ''Invalid email or password'' ''email''"
    using f2 by (simp add: login_def Let_def or_else_def)
  from w f1 a1 c1 f2 r1 r2 show ?thesis by simp
qed

text \<open>
  The claim as written speaks of every request with an email that exists and a wrong
  password. The handler looks at \<^verbatim>\<open>isActive\<close> before it compares the password: for
  a deactivated account the same wrong password is answered 403 with the message
  "Account is deactivated. Please contact support.", not with the status and the message
  of the unknown email.
\<close>

theorem login_deactivated_counterexample:
  "findOne_email (toLowerCase ''ann@x.com'') [ann\<lparr>isActive := False\<rparr>] =
     Some (ann\<lparr>isActive := False\<rparr>) \<and>
   \<not> bcrypt_compare example_collaborators ''wrong1'' (password (ann\<lparr>isActive := False\<rparr>)) \<and>
   findOne_email (toLowerCase ''Bob@x.com'') [ann\<lparr>isActive := False\<rparr>] = None \<and>
   snd (login example_collaborators example_env 1
          \<lparr>l_email = Some ''ann@x.com'', l_password = Some ''wrong1''\<rparr>
          [ann\<lparr>isActive := False\<rparr>]) =
     validation_failure 403 ''Account is deactivated. Please contact support.'' ''account'' \<and>
   snd (login example_collaborators example_env 1
          \<lparr>l_email = Some ''Bob@x.com'', l_password = Some ''wrong1''\<rparr>
          [ann\<lparr>isActive := False\<rparr>]) =
     validation_failure 400 ''Invalid email or password'' ''email'' \<and>
   status (snd (login example_collaborators example_env 1
          \<lparr>l_email = Some ''ann@x.com'', l_password = Some ''wrong1''\<rparr>
          [ann\<lparr>isActive := False\<rparr>])) \<noteq>
   status (snd (login example_collaborators example_env 1
          \<lparr>l_email = Some ''Bob@x.com'', l_password = Some ''wrong1''\<rparr>
          [ann\<lparr>isActive := False\<rparr>]))"
proof -
  have f1: "findOne_email (toLowerCase ''ann@x.com'') [ann\<lparr>isActive := False\<rparr>] =
     Some (ann\<lparr>isActive := False\<rparr>)"
    by (simp add: toLowerCase_ann findOne_email_def ann_def)
  have c1: "\<not> bcrypt_compare example_collaborators ''wrong1''
      (password (ann\<lparr>isActive := False\<rparr>))"
    by (simp add: example_collaborators_def ann_def)
  have f2: "findOne_email (toLowerCase ''Bob@x.com'') [ann\<lparr>isActive := False\<rparr>] = None"
    by (simp add: toLowerCase_bob findOne_email_def ann_def)
  have r1: "login example_collaborators example_env 1
          \<lparr>l_email = Some ''ann@x.com'', l_password = Some ''wrong1''\<rparr>
          [ann\<lparr>isActive := False\<rparr>] =
     ([ann\<lparr>isActive := False\<rparr>],
      validation_failure 403 ''Account is deactivated. Please contact support.'' ''account'')"
    by (rule login_deactivated[OF _ _ f1]) simp_all
  have r2: "login example_collaborators example_env 1
          \<lparr>l_email = Some ''Bob@x.com'', l_password = Some ''wrong1''\<rparr>
          [ann\<lparr>isActive := False\<rparr>] =
     ([ann\<lparr>isActive := False\<rparr>],
      validation_failure 400 ''Invalid email or password'' ''email'')"
    by (rule login_unknown_email[OF _ _ f2]) simp_all
  show ?thesis
    unfolding r1 r2 using f1 c1 f2
    by (simp add: validation_failure_def json_message_def)
qed

subsection \<open>POST /register\<close>


lemma register_passes_checks:
  assumes "e \<noteq> []" and "6 \<le> length pw" and "findOne_email (toLowerCase e) db = None"
  shows "register ext env now \<lparr>b_name = n, b_email = Some e, b_password = Some pw, b_role = r\<rparr> db =
    (let u = new_User ext now \<lparr>b_name = n, b_email = Some e, b_password = Some pw, b_role = r\<rparr> db
     in case user_save ext now True False u db of
          Inl err \<Rightarrow> (db, server_error env ''Server error during registration'' err)
        | Inr (db', u') \<Rightarrow>
            (case generateToken ext env (user_id u') (email u') of
               Inl err \<Rightarrow> (db', server_error env ''Server error during registration'' err)
             | Inr t \<Rightarrow>
                 (db', (json_message 201 ''User created successfully'')
                         \<lparr>success := Some True, token := Some t,
                          r_user := Some (getPublicProfile u')\<rparr>)))"
proof -
  from assms(2) have "pw \<noteq> []" by auto
  with assms show ?thesis
    by (simp add: register_def Let_def or_else_Some)
qed




lemma split_at_first_bob: "split_at_first ''Bob@x.com'' = ''Bob''"
  by (simp add: split_at_first_def)

lemma new_User_bob:
  "new_User example_collaborators 1
     \<lparr>b_name = None, b_email = Some ''Bob@x.com'', b_password = Some ''abcdef'', b_role = r\<rparr> [ann] =
   \<lparr>user_id = ''aa'', name = ''Bob'', email = ''bob@x.com'', password = ''$2b$abcdef'',
    role = or_else r ''user'', googleId = None, picture = None, isActive = True,
    lastLogin = None, createdAt = 1\<rparr>"
  by (simp add: new_User_def example_collaborators_def or_else_def split_at_first_bob
      toLowerCase_bob Let_def)

lemma findOne_bob: "findOne_email (toLowerCase ''Bob@x.com'') [ann] = None"
  by (simp add: toLowerCase_bob findOne_email_def ann_def)

lemma register_bob:
  assumes "or_else r ''user'' \<in> set [''user'', ''admin'']"
  shows "register example_collaborators example_env 1
     \<lparr>b_name = None, b_email = Some ''Bob@x.com'', b_password = Some ''abcdef'', b_role = r\<rparr>
     [ann] =
     ([ann,
       \<lparr>user_id = ''aa'', name = ''Bob'', email = ''bob@x.com'', password = ''$2b$abcdef'',
        role = or_else r ''user'', googleId = None, picture = None, isActive = True,
        lastLogin = Some 1, createdAt = 1\<rparr>],
      (json_message 201 ''User created successfully'')
        \<lparr>success := Some True, token := Some ''aa.bob@x.com.s3cret'',
         r_user := Some \<lparr>p_id = ''aa'', p_name = ''Bob'', p_email = ''bob@x.com'',
                          p_role = or_else r ''user'', p_picture = None, p_createdAt = 1\<rparr>\<rparr>)"
proof -
  have checks: "register example_collaborators example_env 1
     \<lparr>b_name = None, b_email = Some ''Bob@x.com'', b_password = Some ''abcdef'', b_role = r\<rparr>
     [ann] =
    (let u = new_User example_collaborators 1
       \<lparr>b_name = None, b_email = Some ''Bob@x.com'', b_password = Some ''abcdef'', b_role = r\<rparr>
       [ann]
     in case user_save example_collaborators 1 True False u [ann] of
          Inl err \<Rightarrow> ([ann], server_error example_env ''Server error during registration'' err)
        | Inr (db', u') \<Rightarrow>
            (case generateToken example_collaborators example_env (user_id u') (email u') of
               Inl err \<Rightarrow> (db', server_error example_env ''Server error during registration'' err)
             | Inr t \<Rightarrow>
                 (db', (json_message 201 ''User created successfully'')
                         \<lparr>success := Some True, token := Some t,
                          r_user := Some (getPublicProfile u')\<rparr>)))"
    by (rule register_passes_checks) (simp_all add: findOne_bob)
  have valid: "userSchema_valid
     \<lparr>user_id = ''aa'', name = ''Bob'', email = ''bob@x.com'', password = ''$2b$abcdef'',
      role = or_else r ''user'', googleId = None, picture = None, isActive = True,
      lastLogin = None, createdAt = 1\<rparr>"
    using assms by (simp add: userSchema_valid_def)
  show ?thesis
    unfolding checks new_User_bob
    using valid
    by (simp add: Let_def user_save_def example_collaborators_def user_pre_save_def
        generateToken_def signing_secret_def example_env_def getPublicProfile_def ann_def)
qed



subsection \<open>The role of a registered user\<close>

lemma findOne_email_put_user:
  "findOne_email (email u) db = None \<Longrightarrow> findOne_email (email u) (put_user u db) = Some u"
  by (induction db) (auto simp: findOne_email_def split: if_splits)

lemma user_pre_save_frame:
  "email (user_pre_save now a b u) = email u" "role (user_pre_save now a b u) = role u"
  "user_id (user_pre_save now a b u) = user_id u"
  by (simp_all add: user_pre_save_def)

lemma new_User_frame:
  "email (new_User ext now body db) = toLowerCase (or_else (b_email body) [])"
  "role (new_User ext now body db) = or_else (b_role body) ''user''"
  by (simp_all add: new_User_def Let_def)

lemma register_created:
  assumes "status (snd (register ext env now body db)) = 201"
  shows "findOne_email (toLowerCase (or_else (b_email body) [])) db = None \<and>
         fst (register ext env now body db) =
           put_user (user_pre_save now True False (new_User ext now body db)) db \<and>
         r_user (snd (register ext env now body db)) =
           Some (getPublicProfile (user_pre_save now True False (new_User ext now body db)))"
  using assms
  by (auto simp: register_def Let_def validation_failure_def json_message_def
      server_error_def user_save_def
      split: if_splits option.splits sum.splits prod.splits)

text \<open>
  Claim C9. Whenever a registration succeeds, the collection had no user of the email before
  and holds the created user after, and the role of that user is the role of the request
  body when the body has one (any non-empty string: \<^verbatim>\<open>'admin'\<close> gives an administrator,
  and the profile in the answer says so), and \<^verbatim>\<open>'user'\<close> when the body has none.
\<close>

theorem register_role_from_body:
  assumes "status (snd (register ext env now body db)) = 201"
  shows "(let res = register ext env now body db;
              created = user_pre_save now True False (new_User ext now body db)
          in findOne_email (toLowerCase (or_else (b_email body) [])) db = None \<and>
             findOne_email (toLowerCase (or_else (b_email body) [])) (fst res) = Some created \<and>
             r_user (snd res) = Some (getPublicProfile created) \<and>
             p_role (getPublicProfile created) = role created \<and>
             role created = or_else (b_role body) ''user'' \<and>
             (\<forall>x. b_role body = Some x \<and> x \<noteq> [] \<longrightarrow> role created = x) \<and>
             (b_role body = Some ''admin'' \<longrightarrow> role created = ''admin'') \<and>
             (b_role body = None \<longrightarrow> role created = ''user''))"
proof -
  define created where "created = user_pre_save now True False (new_User ext now body db)"
  note rc = register_created[OF assms, folded created_def]
  have em: "email created = toLowerCase (or_else (b_email body) [])"
    by (simp add: created_def user_pre_save_frame new_User_frame)
  have found: "findOne_email (toLowerCase (or_else (b_email body) [])) (put_user created db) =
      Some created"
    using findOne_email_put_user[of created db] rc em by simp
  have rl: "role created = or_else (b_role body) ''user''"
    by (simp add: created_def user_pre_save_frame new_User_frame)
  have pr: "p_role (getPublicProfile created) = role created"
    by (simp add: getPublicProfile_def)
  show ?thesis
    unfolding Let_def created_def[symmetric]
    using rc found rl pr by (auto simp: or_else_def)
qed

theorem register_role_from_body_witness:
  "status (snd (register example_collaborators example_env 1
     \<lparr>b_name = None, b_email = Some ''Bob@x.com'', b_password = Some ''abcdef'',
      b_role = Some ''admin''\<rparr> [ann])) = 201 \<and>
   map role (fst (register example_collaborators example_env 1
     \<lparr>b_name = None, b_email = Some ''Bob@x.com'', b_password = Some ''abcdef'',
      b_role = Some ''admin''\<rparr> [ann])) = [''user'', ''admin''] \<and>
   map_option p_role (r_user (snd (register example_collaborators example_env 1
     \<lparr>b_name = None, b_email = Some ''Bob@x.com'', b_password = Some ''abcdef'',
      b_role = Some ''admin''\<rparr> [ann]))) = Some ''admin''"
proof -
  have bob: "register example_collaborators example_env 1
     \<lparr>b_name = None, b_email = Some ''Bob@x.com'', b_password = Some ''abcdef'',
      b_role = Some ''admin''\<rparr> [ann] =
     ([ann,
       \<lparr>user_id = ''aa'', name = ''Bob'', email = ''bob@x.com'', password = ''$2b$abcdef'',
        role = ''admin'', googleId = None, picture = None, isActive = True,
        lastLogin = Some 1, createdAt = 1\<rparr>],
      (json_message 201 ''User created successfully'')
        \<lparr>success := Some True, token := Some ''aa.bob@x.com.s3cret'',
         r_user := Some \<lparr>p_id = ''aa'', p_name = ''Bob'', p_email = ''bob@x.com'',
                          p_role = ''admin'', p_picture = None, p_createdAt = 1\<rparr>\<rparr>)"
    using register_bob[of "Some ''admin''"] by (simp add: or_else_def)
  have st: "status (snd (register example_collaborators example_env 1
     \<lparr>b_name = None, b_email = Some ''Bob@x.com'', b_password = Some ''abcdef'',
      b_role = Some ''admin''\<rparr> [ann])) = 201"
    unfolding bob by (simp add: json_message_def)
  note w = register_role_from_body[OF st]
  show ?thesis
    using st w unfolding bob
    by (simp add: ann_def)
qed

subsection \<open>The secret of the tokens\<close>

lemma secrets_agree_when_configured:
  "JWT_SECRET env = Some s \<Longrightarrow> s \<noteq> [] \<Longrightarrow> signing_secret env = verification_secret env"
  by (simp add: signing_secret_def verification_secret_def or_else_def)

text \<open>
  Claim C8. The claim asks that signing and verification use one secret under every
  configuration. With \<^verbatim>\<open>JWT_SECRET\<close> unset the middleware verifies with the fixed
  development value, and \<^verbatim>\<open>generateToken\<close> passes \<^verbatim>\<open>undefined\<close> to the signature: it
  has no fallback.
\<close>

theorem token_secret_unset:
  "signing_secret unset_env = None \<and>
   verification_secret unset_env = Some ''your-secret-key'' \<and>
   signing_secret unset_env \<noteq> verification_secret unset_env \<and>
   generateToken ext unset_env uid em = jwt_sign ext (uid, em) None ''7d'' \<and>
   generateToken example_collaborators unset_env ''a'' ''ann@x.com'' =
     Inl (Error ''secretOrPrivateKey must have a value'')"
  by (simp add: signing_secret_def verification_secret_def or_else_def unset_env_def
      generateToken_def example_collaborators_def)

end

